theory Spec2Isabelle
  imports Complex_Main
begin

section \<open>Skill development agent (src/agents/skill_dev.py)\<close>

text \<open>
  The embedding follows \<^verbatim>\<open>SkillDevelopmentAgent\<close>. Python floats are idealised as
  exact rationals (\<^typ>\<open>rat\<close>): every float the agent computes comes from a handful
  of sums, products and \<^verbatim>\<open>min\<close>/\<^verbatim>\<open>max\<close>, followed in two places by
  \<^verbatim>\<open>round(x, 2)\<close>. Strings are byte strings; \<^verbatim>\<open>str.lower\<close> is modelled on the
  ASCII letters. A method takes the agent (and the student, when it writes to it) and
  returns them as the call leaves them, together with the returned value or the raised
  exception; the text of \<^verbatim>\<open>datetime.now()\<close> is an argument \<open>now\<close>, and
  \<^verbatim>\<open>re.search\<close> is an argument \<open>re_search\<close>.
\<close>

subsection \<open>Strings\<close>

definition lower_char :: "char \<Rightarrow> char" where
  "lower_char c =
     (case map_of (zip ''ABCDEFGHIJKLMNOPQRSTUVWXYZ'' ''abcdefghijklmnopqrstuvwxyz'') c of
        None \<Rightarrow> c
      | Some l \<Rightarrow> l)"

definition lower :: "string \<Rightarrow> string" where
  "lower s = map lower_char s"

text \<open>\<^verbatim>\<open>s.startswith(p)\<close>\<close>

definition startswith :: "string \<Rightarrow> string \<Rightarrow> bool" where
  "startswith s p = (take (length p) s = p)"

text \<open>\<^verbatim>\<open>needle in hay\<close> on strings: the needle occurs as a contiguous substring.\<close>

fun py_in :: "string \<Rightarrow> string \<Rightarrow> bool" where
  "py_in needle [] = (needle = [])"
| "py_in needle (c # cs) = (startswith (c # cs) needle \<or> py_in needle cs)"

text \<open>\<^verbatim>\<open>s.replace(' ', '_')\<close>\<close>

definition replace_space :: "string \<Rightarrow> string" where
  "replace_space s = map (\<lambda>c. if c = CHR '' '' then CHR ''_'' else c) s"

text \<open>Decimal rendering of a list length inside an f-string.\<close>

definition digit_char :: "nat \<Rightarrow> char" where
  "digit_char d = ''0123456789'' ! d"

fun show_nat :: "nat \<Rightarrow> string" where
  "show_nat n = (if n < 10 then [digit_char n] else show_nat (n div 10) @ [digit_char (n mod 10)])"

declare show_nat.simps [simp del]

subsection \<open>Numbers\<close>

text \<open>
  \<^verbatim>\<open>round(x, 2)\<close>: the nearest multiple of 0.01, a tie going to the even
  hundredth (Python rounds the exact value of its argument half to even).
\<close>

definition round_half_even :: "rat \<Rightarrow> int" where
  "round_half_even y =
     (let f = \<lfloor>y\<rfloor>; d = y - of_int f
      in if d < 1 / 2 then f else if 1 / 2 < d then f + 1 else if even f then f else f + 1)"

definition round2 :: "rat \<Rightarrow> rat" where
  "round2 x = of_int (round_half_even (x * 100)) / 100"

subsection \<open>Difficulty\<close>

text \<open>\<^verbatim>\<open>level_factors.get(skill_level.lower(), 0.0)\<close>\<close>

definition level_factors :: "(string \<times> rat) list" where
  "level_factors = [(''beginner'', - 0.1), (''intermediate'', 0.0), (''advanced'', 0.1)]"

definition dict_get :: "('k \<times> 'v) list \<Rightarrow> 'k \<Rightarrow> 'v \<Rightarrow> 'v" where
  "dict_get d k dflt = (case map_of d k of None \<Rightarrow> dflt | Some v \<Rightarrow> v)"

definition calculate_difficulty :: "rat \<Rightarrow> rat \<Rightarrow> string \<Rightarrow> int \<Rightarrow> rat" where
  "calculate_difficulty gap_level progress_level skill_level previous_attempts =
     (let base_difficulty = gap_level;
          progress_factor = progress_level * 0.5;
          level_factor = dict_get level_factors (lower skill_level) 0.0;
          attempt_factor = min (of_int previous_attempts * 0.05) 0.2;
          difficulty = min (max (base_difficulty + progress_factor + level_factor + attempt_factor) 0.1) 1.0
      in round2 difficulty)"

text \<open>\<^verbatim>\<open>int(x)\<close> cuts a float towards zero.\<close>

definition calculate_estimated_time :: "rat \<Rightarrow> string \<Rightarrow> int" where
  "calculate_estimated_time difficulty exercise_type =
     (let base_times = [(''multiple_choice'', 5), (''matching'', 7), (''fill_in_blank'', 8),
                        (''short_answer'', 10), (''problem_solving'', 15), (''essay'', 25),
                        (''project'', 45), (''research'', 30)];
          base_time = dict_get base_times exercise_type (10 :: rat);
          difficulty_factor = 1 + difficulty;
          t = base_time * difficulty_factor
      in if 0 \<le> t then \<lfloor>t\<rfloor> else \<lceil>t\<rceil>)"

subsection \<open>Data model\<close>

text \<open>
  A skill is a Python dict. The key \<^verbatim>\<open>"id"\<close> is the field \<open>skill_id\<close>; the keys
  \<^verbatim>\<open>"category"\<close> and \<^verbatim>\<open>"level"\<close> may be absent from the dict, which is the value
  \<open>None\<close> here (the readers use \<^verbatim>\<open>skill.get("level", "beginner")\<close>).
\<close>

record skill =
  skill_id :: string
  name :: string
  category :: "string option"
  gap_level :: rat
  level :: "string option"

text \<open>A taxonomy entry; its description and exercise templates only feed the exercise text.\<close>

record skill_info =
  info_level :: "string option"
  info_keywords :: "string list"
  info_patterns :: "string list"

type_synonym taxonomy = "(string \<times> (string \<times> skill_info) list) list"

record assessment =
  student_id :: string
  subject :: string
  timestamp :: string
  current_level :: rat
  tier :: string
  skills :: "skill list"

text \<open>The dict that \<^verbatim>\<open>track_skill_progress\<close> builds; it has no \<^verbatim>\<open>"skills"\<close> and no \<^verbatim>\<open>"subject"\<close> key.\<close>

record skill_progress =
  sp_student_id :: string
  sp_skill_id :: string
  sp_timestamp :: string
  exercise_count :: nat
  average_score :: rat
  progress_level :: rat
  completed_exercises :: "string option list"

text \<open>\<^verbatim>\<open>self.skill_records\<close> holds dicts of both shapes.\<close>

datatype stored = Assessment assessment | SkillProgress skill_progress

fun stored_student_id :: "stored \<Rightarrow> string" where
  "stored_student_id (Assessment a) = student_id a"
| "stored_student_id (SkillProgress p) = sp_student_id p"

record skill_history =
  attempts :: int
  completions :: "rat list"
  average_completion :: rat
  last_attempt :: "string option"
  feedback :: "(string \<times> string) list option"

record progress_record =
  pr_id :: string
  pr_student_id :: string
  pr_exercise_id :: string
  pr_skill_id :: string
  pr_skill_name :: string
  pr_subject :: string
  pr_timestamp :: string
  pr_completion_status :: rat
  pr_feedback :: "string option"

text \<open>
  The agent object. A Python dict is an association list in insertion order. An attribute
  that \<^verbatim>\<open>__init__\<close> does not create is \<open>None\<close> until some method assigns it.
\<close>

record agent =
  skill_records :: "(string \<times> stored) list"
  skill_taxonomies :: "(string \<times> taxonomy) list"
  progress_records :: "(string \<times> progress_record) list option"
  learning_histories :: "(string \<times> (string \<times> (string \<times> skill_history) list) list) list option"

record student =
  sid :: string
  progress :: "(string \<times> rat) list"
  preferences :: "(string \<times> string) list option"

datatype error = KeyError string | AttributeError string

text \<open>\<^verbatim>\<open>d[k] = v\<close>: an existing key keeps its position, a new key goes last.\<close>

fun dict_set :: "'k \<Rightarrow> 'v \<Rightarrow> ('k \<times> 'v) list \<Rightarrow> ('k \<times> 'v) list" where
  "dict_set k v [] = [(k, v)]"
| "dict_set k v ((k', v') # d) = (if k' = k then (k, v) # d else (k', v') # dict_set k v d)"

text \<open>
  \<^verbatim>\<open>__init__\<close>: the taxonomies are read from the storage directory, so they are an
  argument. \<^verbatim>\<open>progress_records\<close> is assigned nowhere in the class.
\<close>

definition init :: "(string \<times> taxonomy) list \<Rightarrow> agent" where
  "init taxonomies =
     \<lparr>skill_records = [], skill_taxonomies = taxonomies,
      progress_records = None, learning_histories = None\<rparr>"

subsection \<open>Skill mapper\<close>

definition base_skill :: "string \<Rightarrow> string \<Rightarrow> rat \<Rightarrow> skill" where
  "base_skill i n g = \<lparr>skill_id = i, name = n, category = None, gap_level = g, level = None\<rparr>"

definition skill_map :: "(string \<times> (string \<times> skill list) list) list" where
  "skill_map =
     [(''math'',
        [(''beginner'',
            [base_skill ''math_basic_arithmetic'' ''Basic Arithmetic'' 0.2,
             base_skill ''math_fractions'' ''Fractions'' 0.5,
             base_skill ''math_decimals'' ''Decimals'' 0.4]),
         (''intermediate'',
            [base_skill ''math_algebra'' ''Algebra'' 0.3,
             base_skill ''math_geometry'' ''Geometry'' 0.4,
             base_skill ''math_statistics'' ''Statistics'' 0.6]),
         (''advanced'',
            [base_skill ''math_calculus'' ''Calculus'' 0.5,
             base_skill ''math_linear_algebra'' ''Linear Algebra'' 0.7,
             base_skill ''math_probability'' ''Probability Theory'' 0.4])]),
      (''science'',
        [(''beginner'',
            [base_skill ''science_basic_concepts'' ''Basic Science Concepts'' 0.3,
             base_skill ''science_observation'' ''Scientific Observation'' 0.4,
             base_skill ''science_classification'' ''Classification Skills'' 0.5]),
         (''intermediate'',
            [base_skill ''science_hypothesis'' ''Hypothesis Formation'' 0.4,
             base_skill ''science_experimentation'' ''Experimentation'' 0.5,
             base_skill ''science_data_analysis'' ''Data Analysis'' 0.6]),
         (''advanced'',
            [base_skill ''science_research'' ''Research Methods'' 0.5,
             base_skill ''science_critical_analysis'' ''Critical Analysis'' 0.6,
             base_skill ''science_scientific_writing'' ''Scientific Writing'' 0.7])])]"

definition map_skills_for_subject :: "string \<Rightarrow> string \<Rightarrow> skill list" where
  "map_skills_for_subject subj tr = dict_get (dict_get skill_map subj []) tr []"

definition tier_of :: "rat \<Rightarrow> string" where
  "tier_of lvl =
     (if lvl < 0.3 then ''beginner'' else if lvl < 0.7 then ''intermediate'' else ''advanced'')"

text \<open>
  \<^verbatim>\<open>re.search(pattern, content, re.IGNORECASE)\<close> is the argument \<open>re_search\<close> of
  the functions below: the regular-expression engine is not part of this repository.
\<close>

definition keyword_found :: "string list \<Rightarrow> string \<Rightarrow> bool" where
  "keyword_found kws content = list_ex (\<lambda>keyword. py_in (lower keyword) (lower content)) kws"

definition pattern_found :: "(string \<Rightarrow> string \<Rightarrow> bool) \<Rightarrow> string list \<Rightarrow> string \<Rightarrow> bool" where
  "pattern_found re_search pats content = list_ex (\<lambda>pattern. re_search pattern content) pats"

text \<open>
  The inner \<^verbatim>\<open>for skill in skills\<close> loop: the first skill with that name (compared
  in lower case) gets its gap lowered; \<open>None\<close> is \<^verbatim>\<open>skill_exists == False\<close>.
\<close>

fun lower_existing_gap :: "string \<Rightarrow> skill list \<Rightarrow> skill list option" where
  "lower_existing_gap skill_name [] = None"
| "lower_existing_gap skill_name (s # ss) =
     (if lower (name s) = lower skill_name
      then Some (s\<lparr>gap_level := min (gap_level s) 0.2\<rparr> # ss)
      else map_option ((#) s) (lower_existing_gap skill_name ss))"

definition new_skill :: "string \<Rightarrow> string \<Rightarrow> string \<Rightarrow> string \<Rightarrow> skill_info \<Rightarrow> skill" where
  "new_skill subj tr skill_category skill_name info =
     \<lparr>skill_id = subj @ ''_'' @ replace_space (lower skill_name),
      name = skill_name,
      category = Some skill_category,
      gap_level = 0.3,
      level = Some (case info_level info of None \<Rightarrow> tr | Some l \<Rightarrow> l)\<rparr>"

definition skill_matches :: "(string \<Rightarrow> string \<Rightarrow> bool) \<Rightarrow> string \<Rightarrow> skill_info \<Rightarrow> bool" where
  "skill_matches re_search content info =
     (keyword_found (info_keywords info) content \<or> pattern_found re_search (info_patterns info) content)"

definition analyse_skill ::
  "(string \<Rightarrow> string \<Rightarrow> bool) \<Rightarrow> string \<Rightarrow> string \<Rightarrow> string \<Rightarrow> string \<Rightarrow>
   string \<times> skill_info \<Rightarrow> skill list \<Rightarrow> skill list" where
  "analyse_skill re_search content subj tr skill_category item sks =
     (if skill_matches re_search content (snd item)
      then (case lower_existing_gap (fst item) sks of
              Some sks' \<Rightarrow> sks'
            | None \<Rightarrow> sks @ [new_skill subj tr skill_category (fst item) (snd item)])
      else sks)"

definition analyse_content ::
  "(string \<Rightarrow> string \<Rightarrow> bool) \<Rightarrow> string \<Rightarrow> string \<Rightarrow> string \<Rightarrow> taxonomy \<Rightarrow>
   skill list \<Rightarrow> skill list" where
  "analyse_content re_search content subj tr tax sks =
     fold (\<lambda>cat_items acc.
             fold (analyse_skill re_search content subj tr (fst cat_items)) (snd cat_items) acc)
          tax sks"

definition assessment_id_of :: "string \<Rightarrow> string \<Rightarrow> string \<Rightarrow> string" where
  "assessment_id_of stid subj now = ''skill_assessment_'' @ stid @ ''_'' @ subj @ ''_'' @ now"

text \<open>
  \<^verbatim>\<open>identify_skills\<close>; \<open>now\<close> is the text of \<^verbatim>\<open>datetime.now().timestamp()\<close>.
  \<^verbatim>\<open>if content:\<close> skips both \<^verbatim>\<open>None\<close> and the empty string.
\<close>

definition identify_skills ::
  "(string \<Rightarrow> string \<Rightarrow> bool) \<Rightarrow> string \<Rightarrow> agent \<Rightarrow> student \<Rightarrow> string \<Rightarrow> string option \<Rightarrow>
   skill list \<times> agent" where
  "identify_skills re_search now ag st subj content =
     (let assessment_id = assessment_id_of (sid st) subj now;
          cur = dict_get (progress st) subj 0.0;
          tr = tier_of cur;
          sks = map_skills_for_subject subj tr;
          sks' = (case content of
                    None \<Rightarrow> sks
                  | Some c \<Rightarrow>
                      if c = [] then sks
                      else analyse_content re_search c subj tr
                             (dict_get (skill_taxonomies ag) (lower subj) []) sks)
      in (sks',
          ag\<lparr>skill_records :=
                dict_set assessment_id
                  (Assessment \<lparr>student_id = sid st, subject = subj, timestamp = now,
                               current_level = cur, tier = tr, skills = sks'\<rparr>)
                  (skill_records ag)\<rparr>))"

subsection \<open>Learning history\<close>

definition has_key :: "('k \<times> 'v) list \<Rightarrow> 'k \<Rightarrow> bool" where
  "has_key d k = (map_of d k \<noteq> None)"

text \<open>
  \<^verbatim>\<open>_get_learning_history\<close> creates the attribute, the student's entry and the
  subject's entry when they are missing, and returns the subject's dict.
\<close>

definition get_learning_history ::
  "agent \<Rightarrow> student \<Rightarrow> string \<Rightarrow> (string \<times> skill_history) list \<times> agent" where
  "get_learning_history ag st subj =
     (let lh = (case learning_histories ag of None \<Rightarrow> [] | Some h \<Rightarrow> h);
          student_key = ''history_'' @ sid st;
          lh1 = (if has_key lh student_key then lh else dict_set student_key [] lh);
          per_student = dict_get lh1 student_key [];
          per_student1 = (if has_key per_student subj then per_student
                          else dict_set subj [] per_student);
          lh2 = dict_set student_key per_student1 lh1
      in (dict_get per_student1 subj [], ag\<lparr>learning_histories := Some lh2\<rparr>))"

definition update_learning_history ::
  "string \<Rightarrow> agent \<Rightarrow> student \<Rightarrow> string \<Rightarrow> string \<Rightarrow> rat \<Rightarrow> string option \<Rightarrow> agent" where
  "update_learning_history now ag st subj skid completion fb =
     (let (history, ag1) = get_learning_history ag st subj;
          h0 = (case map_of history skid of
                  None \<Rightarrow> \<lparr>attempts = 0, completions = [], average_completion = 0.0,
                            last_attempt = None, feedback = None\<rparr>
                | Some h \<Rightarrow> h);
          cs = completions h0 @ [completion];
          h1 = h0\<lparr>attempts := attempts h0 + 1, completions := cs,
                  average_completion := sum_list cs / of_nat (length cs),
                  last_attempt := Some now\<rparr>;
          h2 = (case fb of
                  None \<Rightarrow> h1
                | Some content \<Rightarrow>
                    if content = [] then h1
                    else h1\<lparr>feedback :=
                              Some ((case feedback h1 of None \<Rightarrow> [] | Some l \<Rightarrow> l) @ [(now, content)])\<rparr>);
          history1 = dict_set skid h2 history;
          lh = (case learning_histories ag1 of None \<Rightarrow> [] | Some h \<Rightarrow> h);
          student_key = ''history_'' @ sid st;
          per_student = dict_set subj history1 (dict_get lh student_key [])
      in ag1\<lparr>learning_histories := Some (dict_set student_key per_student lh)\<rparr>)"

subsection \<open>Exercise recommender\<close>

record exercise =
  ex_id :: string
  ex_skill_id :: string
  ex_skill_name :: string
  difficulty :: rat
  ex_subject :: string
  ex_category :: string
  exercise_type :: string
  estimated_time_minutes :: int

text \<open>
  The description and the resource links of an exercise are texts built from the skill
  name, with a random choice among templates; they are left out of the record.
\<close>

definition determine_exercise_type :: "skill \<Rightarrow> student \<Rightarrow> string" where
  "determine_exercise_type sk st =
     (let default_types = [(''beginner'', ''multiple_choice''), (''intermediate'', ''short_answer''),
                           (''advanced'', ''project'')];
          skill_level = (case level sk of None \<Rightarrow> ''beginner'' | Some l \<Rightarrow> l);
          prefs = (case preferences st of None \<Rightarrow> [] | Some p \<Rightarrow> p);
          level_appropriate =
            [(''beginner'', [''multiple_choice'', ''matching'', ''fill_in_blank'']),
             (''intermediate'', [''short_answer'', ''multiple_choice'', ''problem_solving'']),
             (''advanced'', [''project'', ''essay'', ''problem_solving'', ''research''])]
      in (case map_of prefs ''exercise_type'' of
            None \<Rightarrow> dict_get default_types skill_level ''multiple_choice''
          | Some preferred_type \<Rightarrow>
              if preferred_type \<noteq> [] \<and> List.member (dict_get level_appropriate skill_level []) preferred_type
              then preferred_type
              else dict_get default_types skill_level ''multiple_choice''))"

text \<open>\<^verbatim>\<open>xs[:count]\<close>: a negative count drops that many elements from the end.\<close>

definition py_slice_to :: "int \<Rightarrow> 'a list \<Rightarrow> 'a list" where
  "py_slice_to count xs =
     (if 0 \<le> count then take (nat count) xs else take (nat (int (length xs) + count)) xs)"

text \<open>
  \<^verbatim>\<open>xs.sort(key=lambda x: x.get("gap_level", 0), reverse=True)\<close>: a stable sort by
  descending gap level.
\<close>

definition sort_by_gap_desc :: "skill list \<Rightarrow> skill list" where
  "sort_by_gap_desc xs = sort_key (\<lambda>x. - gap_level x) xs"

definition make_exercise ::
  "student \<Rightarrow> string \<Rightarrow> (string \<times> skill_history) list \<Rightarrow> skill \<Rightarrow> nat \<Rightarrow> exercise" where
  "make_exercise st subj learning_history sk n =
     (let skill_level = (case level sk of None \<Rightarrow> ''beginner'' | Some l \<Rightarrow> l);
          skill_category = (case category sk of None \<Rightarrow> ''general'' | Some c \<Rightarrow> c);
          d = calculate_difficulty (gap_level sk) (dict_get (progress st) subj 0) skill_level
                (case map_of learning_history (skill_id sk) of None \<Rightarrow> 0 | Some h \<Rightarrow> attempts h);
          et = determine_exercise_type sk st
      in \<lparr>ex_id = ''exercise_'' @ skill_id sk @ ''_'' @ show_nat n,
          ex_skill_id = skill_id sk,
          ex_skill_name = name sk,
          difficulty = d,
          ex_subject = subj,
          ex_category = skill_category,
          exercise_type = et,
          estimated_time_minutes = calculate_estimated_time d et\<rparr>)"

text \<open>The \<^verbatim>\<open>for skill in target_skills\<close> loop, with the list built so far.\<close>

fun generate_exercises ::
  "student \<Rightarrow> string \<Rightarrow> (string \<times> skill_history) list \<Rightarrow> skill list \<Rightarrow> exercise list \<Rightarrow> exercise list" where
  "generate_exercises st subj lh [] exercises = exercises"
| "generate_exercises st subj lh (sk # sks) exercises =
     generate_exercises st subj lh sks (exercises @ [make_exercise st subj lh sk (length exercises)])"

text \<open>
  The skills the exercises are made from. When no skill has a gap above 0.4 the list that
  is sorted is the very list stored in the assessment record, so the record is sorted too.
\<close>

definition target_skills :: "int \<Rightarrow> skill list \<Rightarrow> skill list" where
  "target_skills count sks =
     (let skill_gaps = filter (\<lambda>s. 0.4 < gap_level s) sks;
          skill_gaps1 = (if skill_gaps = [] then sks else skill_gaps)
      in py_slice_to count (sort_by_gap_desc skill_gaps1))"

definition set_assessment_skills :: "skill list \<Rightarrow> stored \<Rightarrow> stored" where
  "set_assessment_skills sks r =
     (case r of Assessment a \<Rightarrow> Assessment (a\<lparr>skills := sks\<rparr>) | SkillProgress p \<Rightarrow> SkillProgress p)"

definition recommend_exercises ::
  "(string \<Rightarrow> string \<Rightarrow> bool) \<Rightarrow> string \<Rightarrow> agent \<Rightarrow> student \<Rightarrow> string \<Rightarrow> int \<Rightarrow> string option \<Rightarrow>
   exercise list \<times> agent" where
  "recommend_exercises re_search now ag st subj count content =
     (let (sks, ag1) = identify_skills re_search now ag st subj content;
          ag2 = (if filter (\<lambda>s. 0.4 < gap_level s) sks = []
                 then ag1\<lparr>skill_records :=
                        map (\<lambda>kv. if fst kv = assessment_id_of (sid st) subj now
                                   then (fst kv, set_assessment_skills (sort_by_gap_desc sks) (snd kv))
                                   else kv)
                            (skill_records ag1)\<rparr>
                 else ag1);
          (learning_history, ag3) = get_learning_history ag2 st subj
      in (generate_exercises st subj learning_history (target_skills count sks) [], ag3))"

subsection \<open>Gap updater\<close>

text \<open>The new gap that \<^verbatim>\<open>_update_skill_gap\<close> writes.\<close>

definition adjust_gap :: "rat \<Rightarrow> rat \<Rightarrow> rat" where
  "adjust_gap current_gap completion =
     (let reduction = completion * 0.2;
          new_gap = max 0.0 (current_gap - reduction)
      in round2 new_gap)"

text \<open>The inner loop with its \<^verbatim>\<open>break\<close>: the first skill with that id is rewritten.\<close>

fun update_first_skill :: "string \<Rightarrow> rat \<Rightarrow> skill list \<Rightarrow> skill list" where
  "update_first_skill skid completion [] = []"
| "update_first_skill skid completion (s # ss) =
     (if skill_id s = skid
      then s\<lparr>gap_level := adjust_gap (gap_level s) completion\<rparr> # ss
      else s # update_first_skill skid completion ss)"

text \<open>
  The outer loop over \<^verbatim>\<open>self.skill_records.items()\<close>. It has no \<^verbatim>\<open>break\<close> of its
  own. A stored dict of the student without a \<^verbatim>\<open>"subject"\<close> key raises \<^verbatim>\<open>KeyError\<close>;
  the records before it have been rewritten by then.
\<close>

fun update_skill_gap_loop ::
  "string \<Rightarrow> string \<Rightarrow> string \<Rightarrow> rat \<Rightarrow> (string \<times> stored) list \<Rightarrow> error option \<times> (string \<times> stored) list" where
  "update_skill_gap_loop stid subj skid completion [] = (None, [])"
| "update_skill_gap_loop stid subj skid completion ((k, Assessment a) # rs) =
     (let a' = (if student_id a = stid \<and> subject a = subj
                then a\<lparr>skills := update_first_skill skid completion (skills a)\<rparr> else a);
          (e, rs') = update_skill_gap_loop stid subj skid completion rs
      in (e, (k, Assessment a') # rs'))"
| "update_skill_gap_loop stid subj skid completion ((k, SkillProgress p) # rs) =
     (if sp_student_id p = stid then (Some (KeyError ''subject''), (k, SkillProgress p) # rs)
      else (let (e, rs') = update_skill_gap_loop stid subj skid completion rs
            in (e, (k, SkillProgress p) # rs')))"

definition update_skill_gap :: "agent \<Rightarrow> student \<Rightarrow> string \<Rightarrow> string \<Rightarrow> rat \<Rightarrow> error option \<times> agent" where
  "update_skill_gap ag st subj skid completion =
     (let (e, rs) = update_skill_gap_loop (sid st) subj skid completion (skill_records ag)
      in (e, ag\<lparr>skill_records := rs\<rparr>))"

text \<open>
  The search loop of \<^verbatim>\<open>track_progress\<close>: the first record of the student with a skill
  whose id, after \<^verbatim>\<open>exercise_\<close>, starts the exercise id. Reading \<^verbatim>\<open>"skills"\<close> from a
  stored dict without that key raises.
\<close>

fun find_exercise :: "string \<Rightarrow> string \<Rightarrow> (string \<times> stored) list \<Rightarrow> error + (skill \<times> string) option" where
  "find_exercise stid exid [] = Inr None"
| "find_exercise stid exid ((k, r) # rs) =
     (if stored_student_id r = stid
      then (case r of
              SkillProgress p \<Rightarrow> Inl (KeyError ''skills'')
            | Assessment a \<Rightarrow>
                (case find (\<lambda>s. startswith exid (''exercise_'' @ skill_id s)) (skills a) of
                   Some s \<Rightarrow> Inr (Some (s, subject a))
                 | None \<Rightarrow> find_exercise stid exid rs))
      else find_exercise stid exid rs)"

record progress_result =
  res_progress_id :: string
  res_student_id :: string
  res_subject :: string
  previous_progress :: rat
  new_progress :: rat
  res_skill_name :: string
  res_completion_status :: rat
  res_timestamp :: string

datatype track_result = ErrorPayload string | Tracked progress_result

text \<open>
  \<^verbatim>\<open>track_progress\<close>. The result is the raised exception or the returned dict, with the
  agent and the student as the call leaves them.
\<close>

definition track_progress ::
  "string \<Rightarrow> agent \<Rightarrow> student \<Rightarrow> string \<Rightarrow> rat \<Rightarrow> string option \<Rightarrow>
   (error + track_result) \<times> agent \<times> student" where
  "track_progress now ag st exid completion fb =
     (case find_exercise (sid st) exid (skill_records ag) of
        Inl e \<Rightarrow> (Inl e, ag, st)
      | Inr None \<Rightarrow> (Inr (ErrorPayload ''Exercise not found''), ag, st)
      | Inr (Some (sk, subj)) \<Rightarrow>
          (case progress_records ag of
             None \<Rightarrow> (Inl (AttributeError ''progress_records''), ag, st)
           | Some prs \<Rightarrow>
               (let progress_id = ''progress_'' @ exid @ ''_'' @ now;
                    rec = \<lparr>pr_id = progress_id, pr_student_id = sid st, pr_exercise_id = exid,
                           pr_skill_id = skill_id sk, pr_skill_name = name sk, pr_subject = subj,
                           pr_timestamp = now, pr_completion_status = completion, pr_feedback = fb\<rparr>;
                    ag1 = ag\<lparr>progress_records := Some (dict_set progress_id rec prs)\<rparr>;
                    current_progress = dict_get (progress st) subj 0.0;
                    progress_impact = completion * 0.05;
                    new_p = min (current_progress + progress_impact) 1.0;
                    st1 = st\<lparr>progress := dict_set subj new_p (progress st)\<rparr>;
                    ag2 = update_learning_history now ag1 st1 subj (skill_id sk) completion fb;
                    (e, ag3) = update_skill_gap ag2 st1 subj (skill_id sk) completion
                in (case e of
                      Some err \<Rightarrow> (Inl err, ag3, st1)
                    | None \<Rightarrow>
                        (Inr (Tracked \<lparr>res_progress_id = progress_id, res_student_id = sid st,
                                       res_subject = subj, previous_progress = current_progress,
                                       new_progress = new_p, res_skill_name = name sk,
                                       res_completion_status = completion, res_timestamp = now\<rparr>),
                         ag3, st1)))))"

text \<open>An exercise result: \<^verbatim>\<open>ex.get("id")\<close> and \<^verbatim>\<open>result.get("score", 0)\<close>.\<close>

record exercise_result =
  result_id :: "string option"
  score :: "rat option"

text \<open>
  The subject search of \<^verbatim>\<open>track_skill_progress\<close>. \<^verbatim>\<open>if subject:\<close> takes the empty
  string for "not found", so the search goes on past a record whose subject is empty.
\<close>

fun find_subject :: "string \<Rightarrow> string \<Rightarrow> (string \<times> stored) list \<Rightarrow> error + string option" where
  "find_subject stid skid [] = Inr None"
| "find_subject stid skid ((k, r) # rs) =
     (if stored_student_id r = stid
      then (case r of
              SkillProgress p \<Rightarrow> Inl (KeyError ''skills'')
            | Assessment a \<Rightarrow>
                (if list_ex (\<lambda>s. skill_id s = skid) (skills a) \<and> subject a \<noteq> []
                 then Inr (Some (subject a))
                 else find_subject stid skid rs))
      else find_subject stid skid rs)"

text \<open>
  \<^verbatim>\<open>track_skill_progress\<close>. The feedback text it passes to the learning history, a
  sentence with the number of exercises and the average score, is a fixed non-empty string
  here.
\<close>

definition track_skill_progress ::
  "string \<Rightarrow> agent \<Rightarrow> student \<Rightarrow> string \<Rightarrow> exercise_result list \<Rightarrow> (error + skill_progress) \<times> agent" where
  "track_skill_progress now ag st skid exercise_results =
     (let scores = map (\<lambda>r. case score r of None \<Rightarrow> 0 | Some x \<Rightarrow> x) exercise_results;
          avg_score = (if scores = [] then 0 else sum_list scores / of_nat (length scores));
          pl = min 1.0 (avg_score / 100);
          rec = \<lparr>sp_student_id = sid st, sp_skill_id = skid, sp_timestamp = now,
                 exercise_count = length exercise_results, average_score = avg_score,
                 progress_level = pl, completed_exercises = map result_id exercise_results\<rparr>;
          record_id = ''skill_progress_'' @ sid st @ ''_'' @ skid @ ''_'' @ now;
          ag1 = ag\<lparr>skill_records := dict_set record_id (SkillProgress rec) (skill_records ag)\<rparr>
      in (case find_subject (sid st) skid (skill_records ag1) of
            Inl e \<Rightarrow> (Inl e, ag1)
          | Inr None \<Rightarrow> (Inr rec, ag1)
          | Inr (Some subj) \<Rightarrow>
              (let ag2 = update_learning_history now ag1 st subj skid pl (Some ''Completed exercises'');
                   (e, ag3) = update_skill_gap ag2 st subj skid pl
               in (case e of Some err \<Rightarrow> (Inl err, ag3) | None \<Rightarrow> (Inr rec, ag3)))))"

subsection \<open>The formulas as the specification words them\<close>


definition level_factor :: "string \<Rightarrow> rat" where
  "level_factor s =
     (if s = ''beginner'' then - 0.1 else if s = ''intermediate'' then 0.0
      else if s = ''advanced'' then 0.1 else 0.0)"

subsection \<open>Example inputs\<close>

definition student1 :: student where
  "student1 = \<lparr>sid = ''s1'', progress = [(''math'', 0.2)], preferences = None\<rparr>"

definition no_regex :: "string \<Rightarrow> string \<Rightarrow> bool" where
  "no_regex pattern content = False"

text \<open>A fresh agent after one \<^verbatim>\<open>identify_skills(student1, "math")\<close>.\<close>

definition agent1 :: agent where
  "agent1 = snd (identify_skills no_regex ''1'' (init []) student1 ''math'' None)"

text \<open>A fresh agent after one \<^verbatim>\<open>track_skill_progress(student1, "math_fractions", [])\<close>.\<close>

definition agent_after_skill_progress :: agent where
  "agent_after_skill_progress = snd (track_skill_progress ''1'' (init []) student1 ''math_fractions'' [])"

subsection \<open>Predicates on stored gaps and stores\<close>

text \<open>A gap level as the agent stores it: a multiple of 0.01 between 0 and 1.\<close>

definition two_decimals :: "rat \<Rightarrow> bool" where
  "two_decimals g = (g = of_int \<lfloor>g * 100\<rfloor> / 100)"

definition valid_gap :: "rat \<Rightarrow> bool" where
  "valid_gap g = (0 \<le> g \<and> g \<le> 1 \<and> two_decimals g)"

text \<open>What every stored gap level is, whatever the completions were: a multiple of 0.01, not negative.\<close>

definition stored_gap :: "rat \<Rightarrow> bool" where
  "stored_gap g = (0 \<le> g \<and> two_decimals g)"

text \<open>No stored dict of the student is a skill-progress dict.\<close>

definition only_assessments_of :: "string \<Rightarrow> (string \<times> stored) list \<Rightarrow> bool" where
  "only_assessments_of stid rs =
     list_all (\<lambda>kr. case snd kr of Assessment a \<Rightarrow> True | SkillProgress p \<Rightarrow> sp_student_id p \<noteq> stid) rs"

text \<open>What gap adjustment does to one stored assessment record.\<close>

definition adjust_record :: "string \<Rightarrow> string \<Rightarrow> string \<Rightarrow> rat \<Rightarrow> stored \<Rightarrow> stored" where
  "adjust_record stid subj skid completion r =
     (case r of
        Assessment a \<Rightarrow>
          if student_id a = stid \<and> subject a = subj
          then Assessment (a\<lparr>skills := update_first_skill skid completion (skills a)\<rparr>)
          else r
      | SkillProgress p \<Rightarrow> r)"

text \<open>A second, redundant \<^verbatim>\<open>identify_skills(student1, "math")\<close> on \<open>agent1\<close>.\<close>

definition agent2 :: agent where
  "agent2 = snd (identify_skills no_regex ''2'' agent1 student1 ''math'' None)"

text \<open>Every gap level stored in an assessment record satisfies \<open>P\<close>.\<close>

definition all_gaps :: "(rat \<Rightarrow> bool) \<Rightarrow> (string \<times> stored) list \<Rightarrow> bool" where
  "all_gaps P rs =
     list_all (\<lambda>kr. case snd kr of
                       Assessment a \<Rightarrow> list_all (\<lambda>s. P (gap_level s)) (skills a)
                     | SkillProgress p \<Rightarrow> True) rs"



definition score_sum :: "exercise_result list \<Rightarrow> rat" where
  "score_sum results = sum_list (map (\<lambda>r. case score r of None \<Rightarrow> 0 | Some x \<Rightarrow> x) results)"

text \<open>An advanced student, the agent after one assessment, and a result with a negative score.\<close>

definition student2 :: student where
  "student2 = \<lparr>sid = ''s2'', progress = [(''math'', 0.8)], preferences = None\<rparr>"



definition full_result :: exercise_result where
  "full_result = \<lparr>result_id = Some ''e3'', score = Some 100\<rparr>"


subsection \<open>The fields a skill carries\<close>

definition lacks_category_and_level :: "skill \<Rightarrow> bool" where
  "lacks_category_and_level s = (category s = None \<and> level s = None)"

definition has_category_and_level :: "skill \<Rightarrow> bool" where
  "has_category_and_level s = (category s \<noteq> None \<and> level s \<noteq> None)"

text \<open>The parts of a skill that content analysis never rewrites.\<close>

definition skill_shape :: "skill \<Rightarrow> string \<times> string \<times> string option \<times> string option" where
  "skill_shape s = (skill_id s, name s, category s, level s)"

text \<open>The canned list that \<^verbatim>\<open>identify_skills\<close> starts from.\<close>

definition base_skills_of :: "student \<Rightarrow> string \<Rightarrow> skill list" where
  "base_skills_of st subj = map_skills_for_subject subj (tier_of (dict_get (progress st) subj 0.0))"

subsection \<open>Candidate skills of a recommendation\<close>

text \<open>The skills with a gap above 0.4, or all skills when there is none.\<close>

definition candidate_skills :: "skill list \<Rightarrow> skill list" where
  "candidate_skills sks =
     (if filter (\<lambda>s. 0.4 < gap_level s) sks = [] then sks else filter (\<lambda>s. 0.4 < gap_level s) sks)"

subsection \<open>The default math taxonomy and the content of the scenario\<close>







section \<open>Verified properties\<close>

subsection \<open>Rounding\<close>

lemma round_half_even_ge:
  assumes "of_int n \<le> y"
  shows "n \<le> round_half_even y"
proof -
  have "n \<le> \<lfloor>y\<rfloor>" using assms by (simp add: le_floor_iff)
  then show ?thesis unfolding round_half_even_def Let_def by auto
qed

lemma round_half_even_le:
  assumes h: "y \<le> of_int m"
  shows "round_half_even y \<le> m"
proof -
  have fl: "\<lfloor>y\<rfloor> \<le> m" using h by (simp add: floor_le_iff)
  show ?thesis
  proof (cases "\<lfloor>y\<rfloor> = m")
    case True
    then have "y = of_int m" using h by (metis of_int_floor_le order_antisym)
    then show ?thesis by (simp add: round_half_even_def)
  next
    case False
    with fl have "\<lfloor>y\<rfloor> + 1 \<le> m" by simp
    then show ?thesis using fl unfolding round_half_even_def Let_def by auto
  qed
qed

lemma round2_ge: "of_int n / 100 \<le> x \<Longrightarrow> of_int n / 100 \<le> round2 x"
  unfolding round2_def using round_half_even_ge [of n "x * 100"]
  by (simp add: divide_le_cancel pos_divide_le_eq)

lemma round2_le: "x \<le> of_int m / 100 \<Longrightarrow> round2 x \<le> of_int m / 100"
  unfolding round2_def using round_half_even_le [of "x * 100" m]
  by (simp add: divide_le_cancel pos_le_divide_eq)

subsection \<open>Difficulty\<close>







subsection \<open>Skill progress tracking\<close>

lemma dict_set_mem: "(k, v) \<in> set (dict_set k v d)"
  by (induction d) auto

lemma find_subject_not_none:
  "(k, SkillProgress p) \<in> set rs \<Longrightarrow> sp_student_id p = stid \<Longrightarrow> find_subject stid skid rs \<noteq> Inr None"
proof (induction rs)
  case Nil
  then show ?case by simp
next
  case (Cons x rs)
  obtain k' r where x: "x = (k', r)" by (cases x)
  show ?case
  proof (cases "(k, SkillProgress p) = x")
    case True
    then show ?thesis using Cons.prems x by auto
  next
    case False
    then have "find_subject stid skid rs \<noteq> Inr None" using Cons by auto
    then show ?thesis using x by (cases r) auto
  qed
qed

lemma find_subject_error:
  "find_subject stid skid rs = Inl e \<Longrightarrow> e = KeyError ''skills''"
  by (induction stid skid rs rule: find_subject.induct) (auto split: stored.splits if_splits)

lemma update_skill_gap_loop_raises:
  "(k, SkillProgress p) \<in> set rs \<Longrightarrow> sp_student_id p = stid \<Longrightarrow>
   fst (update_skill_gap_loop stid subj skid c rs) = Some (KeyError ''subject'')"
proof (induction rs)
  case Nil
  then show ?case by simp
next
  case (Cons x rs)
  obtain k' r where x: "x = (k', r)" by (cases x)
  show ?case
  proof (cases "(k, SkillProgress p) = x")
    case True
    then show ?thesis using Cons.prems x by auto
  next
    case False
    then have ih: "fst (update_skill_gap_loop stid subj skid c rs) = Some (KeyError ''subject'')"
      using Cons by auto
    then show ?thesis using x
      by (cases r; cases "update_skill_gap_loop stid subj skid c rs") (auto simp: Let_def)
  qed
qed

lemma get_learning_history_records:
  "skill_records (snd (get_learning_history ag st subj)) = skill_records ag"
  by (simp add: get_learning_history_def Let_def)

lemma update_learning_history_records:
  "skill_records (update_learning_history now ag st subj skid c fb) = skill_records ag"
  using get_learning_history_records [of ag st subj]
  by (cases "get_learning_history ag st subj") (simp add: update_learning_history_def Let_def)

text \<open>
  Claim C3 says that \<^verbatim>\<open>track_skill_progress\<close> always returns the computed record
  without failing. The method first stores its record in \<^verbatim>\<open>self.skill_records\<close>, and
  both scans that follow read \<^verbatim>\<open>"skills"\<close> or \<^verbatim>\<open>"subject"\<close> from every stored dict
  of the student. So the call raises \<^verbatim>\<open>KeyError\<close> on every input: in the subject search
  when no earlier assessment names the skill, in the gap update otherwise.
\<close>

theorem track_skill_progress_always_raises:
  "fst (track_skill_progress now ag st skid results) = Inl (KeyError ''skills'')
   \<or> fst (track_skill_progress now ag st skid results) = Inl (KeyError ''subject'')"
proof -
  define scores where "scores = map (\<lambda>r. case score r of None \<Rightarrow> 0 | Some x \<Rightarrow> x) results"
  define avg where "avg = (if scores = [] then 0 else sum_list scores / of_nat (length scores))"
  define pl where "pl = min 1.0 (avg / 100)"
  define rec where "rec = \<lparr>sp_student_id = sid st, sp_skill_id = skid, sp_timestamp = now,
                 exercise_count = length results, average_score = avg,
                 progress_level = pl, completed_exercises = map result_id results\<rparr>"
  define rid where "rid = ''skill_progress_'' @ sid st @ ''_'' @ skid @ ''_'' @ now"
  define ag1 where "ag1 = ag\<lparr>skill_records := dict_set rid (SkillProgress rec) (skill_records ag)\<rparr>"
  have mem: "(rid, SkillProgress rec) \<in> set (skill_records ag1)"
    by (simp add: ag1_def dict_set_mem)
  have sidr: "sp_student_id rec = sid st" by (simp add: rec_def)
  have unf: "track_skill_progress now ag st skid results =
      (case find_subject (sid st) skid (skill_records ag1) of
            Inl e \<Rightarrow> (Inl e, ag1)
          | Inr None \<Rightarrow> (Inr rec, ag1)
          | Inr (Some subj) \<Rightarrow>
              (let ag2 = update_learning_history now ag1 st subj skid pl (Some ''Completed exercises'');
                   (e, ag3) = update_skill_gap ag2 st subj skid pl
               in (case e of Some err \<Rightarrow> (Inl err, ag3) | None \<Rightarrow> (Inr rec, ag3))))"
    unfolding track_skill_progress_def Let_def ag1_def rid_def rec_def pl_def avg_def scores_def ..
  show ?thesis
  proof (cases "find_subject (sid st) skid (skill_records ag1)")
    case (Inl e)
    then have "e = KeyError ''skills''" by (rule find_subject_error)
    with Inl show ?thesis by (simp add: unf)
  next
    case (Inr r)
    with find_subject_not_none [OF mem sidr, of skid] obtain subj where s: "r = Some subj"
      by (cases r) auto
    let ?ag2 = "update_learning_history now ag1 st subj skid pl (Some ''Completed exercises'')"
    have "(rid, SkillProgress rec) \<in> set (skill_records ?ag2)"
      using mem by (simp add: update_learning_history_records)
    from update_skill_gap_loop_raises [OF this sidr, of subj skid pl]
    have "fst (update_skill_gap ?ag2 st subj skid pl) = Some (KeyError ''subject'')"
      by (cases "update_skill_gap_loop (sid st) subj skid pl (skill_records ?ag2)")
         (simp add: update_skill_gap_def)
    then show ?thesis using Inr s
      by (cases "update_skill_gap ?ag2 st subj skid pl") (simp add: unf Let_def)
  qed
qed

text \<open>On a fresh agent, with no exercise results, the call raises in the subject search.\<close>

theorem track_skill_progress_always_raises_witness:
  "fst (track_skill_progress ''1'' (init []) student1 ''math_fractions'' []) = Inl (KeyError ''skills'')"
proof -
  have "fst (track_skill_progress ''1'' (init []) student1 ''math_fractions'' []) \<noteq> Inl (KeyError ''subject'')"
    by (simp add: track_skill_progress_def init_def student1_def Let_def)
  then show ?thesis
    using track_skill_progress_always_raises [of "''1''" "init []" student1 "''math_fractions''" "[]"]
    by blast
qed

subsection \<open>Progress tracking\<close>

text \<open>No method assigns \<^verbatim>\<open>progress_records\<close>: it stays absent.\<close>

lemma identify_skills_progress_records:
  "progress_records (snd (identify_skills re now ag st subj content)) = progress_records ag"
  by (simp add: identify_skills_def Let_def)

lemma get_learning_history_progress_records:
  "progress_records (snd (get_learning_history ag st subj)) = progress_records ag"
  by (simp add: get_learning_history_def Let_def)

lemma update_learning_history_progress_records:
  "progress_records (update_learning_history now ag st subj skid c fb) = progress_records ag"
  using get_learning_history_progress_records [of ag st subj]
  by (cases "get_learning_history ag st subj") (simp add: update_learning_history_def Let_def)

lemma update_skill_gap_progress_records:
  "progress_records (snd (update_skill_gap ag st subj skid c)) = progress_records ag"
  by (cases "update_skill_gap_loop (sid st) subj skid c (skill_records ag)")
     (simp add: update_skill_gap_def)

lemma recommend_exercises_progress_records:
  "progress_records (snd (recommend_exercises re now ag st subj count content)) = progress_records ag"
proof -
  obtain sks ag1 where i: "identify_skills re now ag st subj content = (sks, ag1)"
    by (cases "identify_skills re now ag st subj content")
  have p1: "progress_records ag1 = progress_records ag"
    using identify_skills_progress_records [of re now ag st subj content] i by simp
  define ag2 where "ag2 = (if filter (\<lambda>s. 0.4 < gap_level s) sks = []
                 then ag1\<lparr>skill_records :=
                        map (\<lambda>kv. if fst kv = assessment_id_of (sid st) subj now
                                   then (fst kv, set_assessment_skills (sort_by_gap_desc sks) (snd kv))
                                   else kv)
                            (skill_records ag1)\<rparr>
                 else ag1)"
  have p2: "progress_records ag2 = progress_records ag" using p1 by (simp add: ag2_def)
  obtain lh ag3 where g: "get_learning_history ag2 st subj = (lh, ag3)"
    by (cases "get_learning_history ag2 st subj")
  have p3: "progress_records ag3 = progress_records ag"
    using get_learning_history_progress_records [of ag2 st subj] g p2 by simp
  have "snd (recommend_exercises re now ag st subj count content) = ag3"
    using i g unfolding recommend_exercises_def ag2_def by (simp add: Let_def)
  then show ?thesis using p3 by simp
qed

lemma track_skill_progress_progress_records:
  "progress_records (snd (track_skill_progress now ag st skid results)) = progress_records ag"
proof -
  define scores where "scores = map (\<lambda>r. case score r of None \<Rightarrow> 0 | Some x \<Rightarrow> x) results"
  define avg where "avg = (if scores = [] then 0 else sum_list scores / of_nat (length scores))"
  define pl where "pl = min 1.0 (avg / 100)"
  define rec where "rec = \<lparr>sp_student_id = sid st, sp_skill_id = skid, sp_timestamp = now,
                 exercise_count = length results, average_score = avg,
                 progress_level = pl, completed_exercises = map result_id results\<rparr>"
  define rid where "rid = ''skill_progress_'' @ sid st @ ''_'' @ skid @ ''_'' @ now"
  define ag1 where "ag1 = ag\<lparr>skill_records := dict_set rid (SkillProgress rec) (skill_records ag)\<rparr>"
  have p1: "progress_records ag1 = progress_records ag" by (simp add: ag1_def)
  have unf: "track_skill_progress now ag st skid results =
      (case find_subject (sid st) skid (skill_records ag1) of
            Inl e \<Rightarrow> (Inl e, ag1)
          | Inr None \<Rightarrow> (Inr rec, ag1)
          | Inr (Some subj) \<Rightarrow>
              (let ag2 = update_learning_history now ag1 st subj skid pl (Some ''Completed exercises'');
                   (e, ag3) = update_skill_gap ag2 st subj skid pl
               in (case e of Some err \<Rightarrow> (Inl err, ag3) | None \<Rightarrow> (Inr rec, ag3))))"
    unfolding track_skill_progress_def Let_def ag1_def rid_def rec_def pl_def avg_def scores_def ..
  show ?thesis
  proof (cases "find_subject (sid st) skid (skill_records ag1)")
    case (Inl e)
    then show ?thesis using p1 by (simp add: unf)
  next
    case (Inr r)
    show ?thesis
    proof (cases r)
      case None
      then show ?thesis using Inr p1 by (simp add: unf)
    next
      case (Some subj)
      let ?ag2 = "update_learning_history now ag1 st subj skid pl (Some ''Completed exercises'')"
      obtain e ag3 where u: "update_skill_gap ?ag2 st subj skid pl = (e, ag3)"
        by (cases "update_skill_gap ?ag2 st subj skid pl")
      have "progress_records ag3 = progress_records ag"
        using update_skill_gap_progress_records [of ?ag2 st subj skid pl] u p1
        by (simp add: update_learning_history_progress_records)
      then show ?thesis using Inr Some u by (cases e) (simp_all add: unf Let_def)
    qed
  qed
qed

lemma track_progress_progress_records:
  "progress_records ag = None \<Longrightarrow> progress_records (fst (snd (track_progress now ag st exid c fb))) = None"
  by (simp add: track_progress_def split: sum.splits option.splits prod.splits)

lemma track_progress_not_found:
  "find_exercise (sid st) exid (skill_records ag) = Inr None \<Longrightarrow>
   track_progress now ag st exid c fb = (Inr (ErrorPayload ''Exercise not found''), ag, st)"
  by (simp add: track_progress_def)

lemma track_progress_unresolved_unchanged:
  "find_exercise (sid st) exid (skill_records ag) = Inl e \<or>
   find_exercise (sid st) exid (skill_records ag) = Inr None \<Longrightarrow>
   snd (track_progress now ag st exid c fb) = (ag, st)"
  by (auto simp: track_progress_def)

lemma find_exercise_none:
  "list_all (\<lambda>kr. stored_student_id (snd kr) = stid \<longrightarrow>
              (case snd kr of
                 Assessment a \<Rightarrow> \<not> list_ex (\<lambda>s. startswith exid (''exercise_'' @ skill_id s)) (skills a)
               | SkillProgress p \<Rightarrow> False)) rs \<Longrightarrow>
   find_exercise stid exid rs = Inr None"
proof (induction rs)
  case Nil
  then show ?case by simp
next
  case (Cons x rs)
  obtain k r where x: "x = (k, r)" by (cases x)
  from Cons have ih: "find_exercise stid exid rs = Inr None" by simp
  show ?case
  proof (cases r)
    case (Assessment a)
    show ?thesis
    proof (cases "student_id a = stid")
      case True
      then have "\<not> list_ex (\<lambda>s. startswith exid (''exercise_'' @ skill_id s)) (skills a)"
        using Cons.prems x Assessment by simp
      then have "find (\<lambda>s. startswith exid (''exercise_'' @ skill_id s)) (skills a) = None"
        by (simp add: find_None_iff list_ex_iff)
      then show ?thesis using x Assessment True ih by simp
    next
      case False
      then show ?thesis using x Assessment ih by simp
    qed
  next
    case (SkillProgress p)
    then show ?thesis using Cons.prems x ih by auto
  qed
qed

lemma agent1_eq:
  "agent1 =
     \<lparr>skill_records =
        [(''skill_assessment_s1_math_1'',
          Assessment \<lparr>student_id = ''s1'', subject = ''math'', timestamp = ''1'',
                      current_level = 0.2, tier = ''beginner'',
                      skills = [base_skill ''math_basic_arithmetic'' ''Basic Arithmetic'' 0.2,
                                base_skill ''math_fractions'' ''Fractions'' 0.5,
                                base_skill ''math_decimals'' ''Decimals'' 0.4]\<rparr>)],
      skill_taxonomies = [], progress_records = None, learning_histories = None\<rparr>"
  by (simp add: agent1_def identify_skills_def init_def student1_def Let_def assessment_id_of_def
      dict_get_def tier_of_def map_skills_for_subject_def skill_map_def)

text \<open>
  Claim C1 says that \<^verbatim>\<open>track_progress\<close>, for an exercise id that resolves to a skill,
  stores a progress entry, raises the student's progress, updates the learning history and
  the gap, and returns the previous and the new progress. The first statement after the
  search is \<^verbatim>\<open>self.progress_records[progress_id] = progress_record\<close>, and no method creates
  that attribute (unlike \<^verbatim>\<open>learning_histories\<close>, which \<^verbatim>\<open>_get_learning_history\<close>
  creates on demand). So whenever the exercise resolves, the call raises
  \<^verbatim>\<open>AttributeError\<close> and leaves the agent and the student as they were.
\<close>

theorem track_progress_attribute_error:
  "progress_records ag = None \<Longrightarrow> find_exercise (sid st) exid (skill_records ag) = Inr (Some x) \<Longrightarrow>
   track_progress now ag st exid c fb = (Inl (AttributeError ''progress_records''), ag, st)"
  by (cases x) (simp add: track_progress_def)

theorem track_progress_attribute_error_witness:
  "progress_records agent1 = None
   \<and> find_exercise (sid student1) ''exercise_math_fractions_0'' (skill_records agent1)
       = Inr (Some (base_skill ''math_fractions'' ''Fractions'' 0.5, ''math''))
   \<and> track_progress ''2'' agent1 student1 ''exercise_math_fractions_0'' 1.0 None
       = (Inl (AttributeError ''progress_records''), agent1, student1)"
proof -
  have a: "progress_records agent1 = None" by (simp add: agent1_eq)
  have b: "find_exercise (sid student1) ''exercise_math_fractions_0'' (skill_records agent1)
             = Inr (Some (base_skill ''math_fractions'' ''Fractions'' 0.5, ''math''))"
    by (simp add: agent1_eq student1_def startswith_def base_skill_def)
  show ?thesis using a b track_progress_attribute_error [OF a b] by simp
qed

text \<open>
  Claim C4 says that \<^verbatim>\<open>track_progress\<close> answers an exercise id that matches no skill of
  the student with an error payload and changes nothing. That is what it does on a store
  of assessment records (\<open>find_exercise_none\<close>, \<open>track_progress_not_found\<close>,
  \<open>track_progress_unresolved_unchanged\<close>). But \<^verbatim>\<open>track_skill_progress\<close> leaves its own
  record in the same store, also when it raises; from then on the search of
  \<^verbatim>\<open>track_progress\<close> reads \<^verbatim>\<open>"skills"\<close> from that record and raises \<^verbatim>\<open>KeyError\<close>
  instead of returning the payload.
\<close>

theorem track_progress_unresolved_raises:
  "skill_records agent_after_skill_progress =
     [(''skill_progress_s1_math_fractions_1'',
       SkillProgress \<lparr>sp_student_id = ''s1'', sp_skill_id = ''math_fractions'', sp_timestamp = ''1'',
                      exercise_count = 0, average_score = 0, progress_level = 0,
                      completed_exercises = []\<rparr>)]
   \<and> track_progress ''2'' agent_after_skill_progress student1 ''exercise_unknown_0'' 1.0 None
       = (Inl (KeyError ''skills''), agent_after_skill_progress, student1)"
  by (simp add: agent_after_skill_progress_def track_skill_progress_def init_def student1_def
      Let_def track_progress_def)

subsection \<open>Gap adjustment\<close>

lemma round2_two_decimals: "two_decimals (round2 x)"
  by (simp add: two_decimals_def round2_def)


lemma update_first_skill_split:
  "\<not> list_ex (\<lambda>s. skill_id s = skid) pre \<Longrightarrow> skill_id s = skid \<Longrightarrow>
   update_first_skill skid c (pre @ s # post) = pre @ s\<lparr>gap_level := adjust_gap (gap_level s) c\<rparr> # post"
  by (induction pre) auto

lemma update_first_skill_none:
  "\<not> list_ex (\<lambda>s. skill_id s = skid) sks \<Longrightarrow> update_first_skill skid c sks = sks"
  by (induction sks) auto

lemma update_skill_gap_loop_assessments:
  "only_assessments_of stid rs \<Longrightarrow>
   update_skill_gap_loop stid subj skid c rs =
     (None, map (\<lambda>kr. (fst kr, adjust_record stid subj skid c (snd kr))) rs)"
proof (induction rs)
  case Nil
  then show ?case by simp
next
  case (Cons x rs)
  obtain k r where x: "x = (k, r)" by (cases x)
  from Cons have ih: "update_skill_gap_loop stid subj skid c rs =
     (None, map (\<lambda>kr. (fst kr, adjust_record stid subj skid c (snd kr))) rs)"
    by (simp add: only_assessments_of_def)
  show ?case
  proof (cases r)
    case (Assessment a)
    then show ?thesis using x ih by (simp add: adjust_record_def Let_def)
  next
    case (SkillProgress p)
    then have "sp_student_id p \<noteq> stid" using Cons.prems x by (simp add: only_assessments_of_def)
    then show ?thesis using x ih SkillProgress by (simp add: adjust_record_def Let_def)
  qed
qed

lemma adjust_gap_nonneg: "0 \<le> adjust_gap g c"
proof -
  have "of_int 0 / 100 \<le> max 0.0 (g - c * 0.2)" by simp
  from round2_ge [OF this] show ?thesis by (simp add: adjust_gap_def Let_def)
qed


lemma adjust_gap_le_one:
  assumes "0 \<le> c" "g \<le> 1"
  shows "adjust_gap g c \<le> 1"
proof -
  have "max 0.0 (g - c * 0.2) \<le> of_int 100 / 100" using assms
    by simp
  from round2_le [OF this] show ?thesis by (simp add: adjust_gap_def Let_def)
qed

lemma adjust_gap_valid:
  "0 \<le> c \<Longrightarrow> valid_gap g \<Longrightarrow> valid_gap (adjust_gap g c)"
  unfolding valid_gap_def using adjust_gap_nonneg adjust_gap_le_one
  by (simp add: adjust_gap_def Let_def round2_two_decimals)

lemma adjust_gap_stored: "stored_gap (adjust_gap g c)"
  using adjust_gap_nonneg [of g c] by (simp add: stored_gap_def adjust_gap_def Let_def round2_two_decimals)



lemma agent2_eq:
  "skill_records agent2 =
        [(''skill_assessment_s1_math_1'',
          Assessment \<lparr>student_id = ''s1'', subject = ''math'', timestamp = ''1'',
                      current_level = 0.2, tier = ''beginner'',
                      skills = [base_skill ''math_basic_arithmetic'' ''Basic Arithmetic'' 0.2,
                                base_skill ''math_fractions'' ''Fractions'' 0.5,
                                base_skill ''math_decimals'' ''Decimals'' 0.4]\<rparr>),
         (''skill_assessment_s1_math_2'',
          Assessment \<lparr>student_id = ''s1'', subject = ''math'', timestamp = ''2'',
                      current_level = 0.2, tier = ''beginner'',
                      skills = [base_skill ''math_basic_arithmetic'' ''Basic Arithmetic'' 0.2,
                                base_skill ''math_fractions'' ''Fractions'' 0.5,
                                base_skill ''math_decimals'' ''Decimals'' 0.4]\<rparr>)]"
  by (simp add: agent2_def agent1_eq identify_skills_def student1_def Let_def assessment_id_of_def
      dict_get_def tier_of_def map_skills_for_subject_def skill_map_def)

text \<open>
  The same through \<^verbatim>\<open>track_skill_progress\<close>: with one result of score 100 both
  duplicate records get the new gap before the call raises.
\<close>

lemma track_skill_progress_updates_duplicates:
  "skill_records (snd (track_skill_progress ''3'' agent2 student1 ''math_fractions'' [full_result])) =
        [(''skill_assessment_s1_math_1'',
          Assessment \<lparr>student_id = ''s1'', subject = ''math'', timestamp = ''1'',
                      current_level = 0.2, tier = ''beginner'',
                      skills = [base_skill ''math_basic_arithmetic'' ''Basic Arithmetic'' 0.2,
                                base_skill ''math_fractions'' ''Fractions'' 0.3,
                                base_skill ''math_decimals'' ''Decimals'' 0.4]\<rparr>),
         (''skill_assessment_s1_math_2'',
          Assessment \<lparr>student_id = ''s1'', subject = ''math'', timestamp = ''2'',
                      current_level = 0.2, tier = ''beginner'',
                      skills = [base_skill ''math_basic_arithmetic'' ''Basic Arithmetic'' 0.2,
                                base_skill ''math_fractions'' ''Fractions'' 0.3,
                                base_skill ''math_decimals'' ''Decimals'' 0.4]\<rparr>),
         (''skill_progress_s1_math_fractions_3'',
          SkillProgress \<lparr>sp_student_id = ''s1'', sp_skill_id = ''math_fractions'', sp_timestamp = ''3'',
                      exercise_count = 1, average_score = 100, progress_level = 1,
                      completed_exercises = [Some ''e3'']\<rparr>)]"
proof -
  have a: "agent2 = \<lparr>skill_records = skill_records agent2, skill_taxonomies = [],
                      progress_records = None, learning_histories = None\<rparr>"
    by (simp add: agent2_def agent1_eq identify_skills_def Let_def)
  show ?thesis
    by (subst a, subst a)
       (simp add: agent2_eq track_skill_progress_def student1_def full_result_def Let_def
        base_skill_def update_learning_history_def get_learning_history_def has_key_def dict_get_def
        update_skill_gap_def adjust_gap_def round2_def round_half_even_def)
qed

text \<open>
  Claim C2 says that gap adjustment rewrites the skill in the first matching assessment
  record only and leaves duplicate records of the same student and subject unchanged. The
  \<^verbatim>\<open>break\<close> of \<^verbatim>\<open>_update_skill_gap\<close> ends the scan of one record's skills; the
  loop over the records goes on. After two \<^verbatim>\<open>identify_skills\<close> calls for the same
  student and subject, one adjustment of \<^verbatim>\<open>math_fractions\<close> with completion 1.0 takes
  the gap from 0.5 to 0.3 in both records.
\<close>

theorem update_skill_gap_duplicates_counterexample:
  "skill_records agent2 =
        [(''skill_assessment_s1_math_1'',
          Assessment \<lparr>student_id = ''s1'', subject = ''math'', timestamp = ''1'',
                      current_level = 0.2, tier = ''beginner'',
                      skills = [base_skill ''math_basic_arithmetic'' ''Basic Arithmetic'' 0.2,
                                base_skill ''math_fractions'' ''Fractions'' 0.5,
                                base_skill ''math_decimals'' ''Decimals'' 0.4]\<rparr>),
         (''skill_assessment_s1_math_2'',
          Assessment \<lparr>student_id = ''s1'', subject = ''math'', timestamp = ''2'',
                      current_level = 0.2, tier = ''beginner'',
                      skills = [base_skill ''math_basic_arithmetic'' ''Basic Arithmetic'' 0.2,
                                base_skill ''math_fractions'' ''Fractions'' 0.5,
                                base_skill ''math_decimals'' ''Decimals'' 0.4]\<rparr>)]
   \<and> skill_records (snd (update_skill_gap agent2 student1 ''math'' ''math_fractions'' 1.0)) =
        [(''skill_assessment_s1_math_1'',
          Assessment \<lparr>student_id = ''s1'', subject = ''math'', timestamp = ''1'',
                      current_level = 0.2, tier = ''beginner'',
                      skills = [base_skill ''math_basic_arithmetic'' ''Basic Arithmetic'' 0.2,
                                base_skill ''math_fractions'' ''Fractions'' 0.3,
                                base_skill ''math_decimals'' ''Decimals'' 0.4]\<rparr>),
         (''skill_assessment_s1_math_2'',
          Assessment \<lparr>student_id = ''s1'', subject = ''math'', timestamp = ''2'',
                      current_level = 0.2, tier = ''beginner'',
                      skills = [base_skill ''math_basic_arithmetic'' ''Basic Arithmetic'' 0.2,
                                base_skill ''math_fractions'' ''Fractions'' 0.3,
                                base_skill ''math_decimals'' ''Decimals'' 0.4]\<rparr>)]"
  by (simp add: update_skill_gap_def agent2_eq student1_def Let_def base_skill_def adjust_gap_def
      round2_def round_half_even_def)

text \<open>
  Claim C2 as amended. On a store whose dicts of the student are all assessment records,
  gap adjustment for (student, subject, skill id) rewrites every assessment record of that
  student and subject, duplicates included: in each of them the first skill with that id
  gets the adjusted gap, and nothing else changes. Records of other students or subjects
  stay as they are, and no error is raised.
\<close>

theorem update_skill_gap_every_matching_record:
  "only_assessments_of (sid st) (skill_records ag) \<Longrightarrow>
   update_skill_gap ag st subj skid c =
     (None, ag\<lparr>skill_records :=
                 map (\<lambda>kr. (fst kr, adjust_record (sid st) subj skid c (snd kr))) (skill_records ag)\<rparr>)
   \<and> (\<not> list_ex (\<lambda>s. skill_id s = skid) pre \<and> skill_id s = skid \<longrightarrow>
        update_first_skill skid c (pre @ s # post) =
          pre @ s\<lparr>gap_level := adjust_gap (gap_level s) c\<rparr> # post)
   \<and> (\<not> list_ex (\<lambda>s. skill_id s = skid) sks \<longrightarrow> update_first_skill skid c sks = sks)"
  using update_skill_gap_loop_assessments [of "sid st" "skill_records ag" subj skid c]
    update_first_skill_split [of skid pre s c post] update_first_skill_none [of skid sks c]
  by (simp add: update_skill_gap_def)

theorem update_skill_gap_every_matching_record_witness:
  "only_assessments_of (sid student1) (skill_records agent2)
   \<and> update_skill_gap agent2 student1 ''math'' ''math_fractions'' 1.0 =
       (None, agent2\<lparr>skill_records :=
                 map (\<lambda>kr. (fst kr, adjust_record (sid student1) ''math'' ''math_fractions'' 1.0 (snd kr)))
                   (skill_records agent2)\<rparr>)
   \<and> update_first_skill ''math_fractions'' 1.0
        ([base_skill ''math_basic_arithmetic'' ''Basic Arithmetic'' 0.2]
         @ base_skill ''math_fractions'' ''Fractions'' 0.5 # [base_skill ''math_decimals'' ''Decimals'' 0.4])
       = [base_skill ''math_basic_arithmetic'' ''Basic Arithmetic'' 0.2]
         @ (base_skill ''math_fractions'' ''Fractions'' 0.5)\<lparr>gap_level := adjust_gap 0.5 1.0\<rparr>
         # [base_skill ''math_decimals'' ''Decimals'' 0.4]
   \<and> update_first_skill ''math_algebra'' 1.0 [base_skill ''math_decimals'' ''Decimals'' 0.4]
       = [base_skill ''math_decimals'' ''Decimals'' 0.4]"
proof -
  have h: "only_assessments_of (sid student1) (skill_records agent2)"
    by (simp add: only_assessments_of_def agent2_eq)
  have p: "\<not> list_ex (\<lambda>s. skill_id s = ''math_fractions'')
               [base_skill ''math_basic_arithmetic'' ''Basic Arithmetic'' 0.2]
           \<and> skill_id (base_skill ''math_fractions'' ''Fractions'' 0.5) = ''math_fractions''"
    by (simp add: base_skill_def)
  have q: "\<not> list_ex (\<lambda>s. skill_id s = ''math_algebra'') [base_skill ''math_decimals'' ''Decimals'' 0.4]"
    by (simp add: base_skill_def)
  show ?thesis
    using h p q
      update_skill_gap_every_matching_record [OF h, of "''math''" "''math_fractions''" "1.0"
        "[base_skill ''math_basic_arithmetic'' ''Basic Arithmetic'' 0.2]"
        "base_skill ''math_fractions'' ''Fractions'' 0.5"
        "[base_skill ''math_decimals'' ''Decimals'' 0.4]"
        "[base_skill ''math_decimals'' ''Decimals'' 0.4]"]
    by (simp add: base_skill_def)
qed



subsection \<open>Invariants of the stored gap levels\<close>

lemma dict_get_mem:
  "\<exists>v. (k, v) \<in> set d \<and> x \<in> set v" if "x \<in> set (dict_get d k [])"
proof (cases "map_of d k")
  case None
  then show ?thesis using that by (simp add: dict_get_def)
next
  case (Some v)
  then have "(k, v) \<in> set d" by (rule map_of_SomeD)
  then show ?thesis using that Some by (auto simp: dict_get_def)
qed

lemma base_skills_valid:
  assumes "s \<in> set (map_skills_for_subject subj tr)"
  shows "valid_gap (gap_level s) \<and> category s = None \<and> level s = None"
proof -
  from assms obtain v where v: "(tr, v) \<in> set (dict_get skill_map subj [])" "s \<in> set v"
    unfolding map_skills_for_subject_def by (blast dest: dict_get_mem)
  from v(1) obtain w where w: "(subj, w) \<in> set skill_map" "(tr, v) \<in> set w"
    by (blast dest: dict_get_mem)
  from w v(2) show ?thesis
    by (auto simp: skill_map_def base_skill_def valid_gap_def two_decimals_def)
qed

lemma lower_existing_gap_all:
  "lower_existing_gap nm sks = Some sks' \<Longrightarrow> list_all (\<lambda>s. P (gap_level s)) sks \<Longrightarrow>
   (\<And>g. P g \<Longrightarrow> P (min g 0.2)) \<Longrightarrow> list_all (\<lambda>s. P (gap_level s)) sks'"
  by (induction sks arbitrary: sks') (auto split: if_splits)

lemma analyse_skill_all:
  assumes "list_all (\<lambda>s. P (gap_level s)) sks" "\<And>g. P g \<Longrightarrow> P (min g 0.2)" "P 0.3"
  shows "list_all (\<lambda>s. P (gap_level s)) (analyse_skill re content subj tr cat item sks)"
proof (cases "lower_existing_gap (fst item) sks")
  case None
  then show ?thesis using assms by (simp add: analyse_skill_def new_skill_def)
next
  case (Some sks')
  with lower_existing_gap_all [OF Some assms(1) assms(2)] show ?thesis using assms(1)
    by (simp add: analyse_skill_def)
qed

lemma fold_analyse_skill_all:
  assumes "\<And>g. P g \<Longrightarrow> P (min g 0.2)" "P 0.3"
  shows "list_all (\<lambda>s. P (gap_level s)) sks \<Longrightarrow>
         list_all (\<lambda>s. P (gap_level s)) (fold (analyse_skill re content subj tr cat) items sks)"
proof (induction items arbitrary: sks)
  case Nil
  then show ?case by simp
next
  case (Cons item items)
  have "list_all (\<lambda>s. P (gap_level s)) (analyse_skill re content subj tr cat item sks)"
    using Cons.prems assms by (rule analyse_skill_all)
  then show ?case using Cons.IH by simp
qed

lemma analyse_content_all:
  assumes "\<And>g. P g \<Longrightarrow> P (min g 0.2)" "P 0.3"
  shows "list_all (\<lambda>s. P (gap_level s)) sks \<Longrightarrow>
         list_all (\<lambda>s. P (gap_level s)) (analyse_content re content subj tr tax sks)"
  unfolding analyse_content_def
proof (induction tax arbitrary: sks)
  case Nil
  then show ?case by simp
next
  case (Cons ci tax)
  have "list_all (\<lambda>s. P (gap_level s))
          (fold (analyse_skill re content subj tr (fst ci)) (snd ci) sks)"
    using assms Cons.prems by (rule fold_analyse_skill_all)
  then show ?case using Cons.IH by simp
qed

lemma identify_skills_result_all:
  assumes "\<And>g. valid_gap g \<Longrightarrow> P g" "\<And>g. P g \<Longrightarrow> P (min g 0.2)"
  shows "list_all (\<lambda>s. P (gap_level s)) (fst (identify_skills re now ag st subj content))"
proof -
  have v3: "valid_gap 0.3" by (simp add: valid_gap_def two_decimals_def)
  have b: "list_all (\<lambda>s. P (gap_level s)) (map_skills_for_subject subj tr)" for tr
    using base_skills_valid assms(1) by (simp add: list_all_iff)
  show ?thesis
    using b analyse_content_all [of P, OF assms(2) assms(1) [OF v3]]
    by (simp add: identify_skills_def Let_def split: option.splits)
qed

lemma all_gaps_dict_set:
  "all_gaps P rs \<Longrightarrow> (case r of Assessment a \<Rightarrow> list_all (\<lambda>s. P (gap_level s)) (skills a) | SkillProgress p \<Rightarrow> True) \<Longrightarrow>
   all_gaps P (dict_set k r rs)"
  unfolding all_gaps_def by (induction rs) auto

lemma identify_skills_all_gaps:
  assumes "\<And>g. valid_gap g \<Longrightarrow> P g" "\<And>g. P g \<Longrightarrow> P (min g 0.2)" "all_gaps P (skill_records ag)"
  shows "all_gaps P (skill_records (snd (identify_skills re now ag st subj content)))"
proof -
  have "skill_records (snd (identify_skills re now ag st subj content)) =
        dict_set (assessment_id_of (sid st) subj now)
          (Assessment \<lparr>student_id = sid st, subject = subj, timestamp = now,
             current_level = dict_get (progress st) subj 0.0, tier = tier_of (dict_get (progress st) subj 0.0),
             skills = fst (identify_skills re now ag st subj content)\<rparr>) (skill_records ag)"
    by (simp add: identify_skills_def Let_def)
  then show ?thesis
    using all_gaps_dict_set [OF assms(3)] identify_skills_result_all [of P, OF assms(1) assms(2)]
    by simp
qed

lemma update_first_skill_all:
  "list_all (\<lambda>s. P (gap_level s)) sks \<Longrightarrow> (\<And>g. P g \<Longrightarrow> P (adjust_gap g c)) \<Longrightarrow>
   list_all (\<lambda>s. P (gap_level s)) (update_first_skill skid c sks)"
  by (induction sks) auto

lemma update_skill_gap_loop_all:
  "all_gaps P rs \<Longrightarrow> (\<And>g. P g \<Longrightarrow> P (adjust_gap g c)) \<Longrightarrow>
   all_gaps P (snd (update_skill_gap_loop stid subj skid c rs))"
proof (induction rs)
  case Nil
  then show ?case by (simp add: all_gaps_def)
next
  case (Cons x rs)
  obtain k r where x: "x = (k, r)" by (cases x)
  from Cons have ih: "all_gaps P (snd (update_skill_gap_loop stid subj skid c rs))"
    by (simp add: all_gaps_def)
  obtain e rs' where l: "update_skill_gap_loop stid subj skid c rs = (e, rs')"
    by (cases "update_skill_gap_loop stid subj skid c rs")
  show ?case
  proof (cases r)
    case (Assessment a)
    have "list_all (\<lambda>s. P (gap_level s)) (skills a)" using Cons.prems(1) x Assessment
      by (simp add: all_gaps_def)
    from update_first_skill_all [OF this Cons.prems(2)] this
    show ?thesis using x Assessment ih l by (simp add: all_gaps_def Let_def)
  next
    case (SkillProgress p)
    then show ?thesis using x ih l Cons.prems(1) by (simp add: all_gaps_def Let_def)
  qed
qed

lemma update_skill_gap_all:
  "all_gaps P (skill_records ag) \<Longrightarrow> (\<And>g. P g \<Longrightarrow> P (adjust_gap g c)) \<Longrightarrow>
   all_gaps P (skill_records (snd (update_skill_gap ag st subj skid c)))"
  using update_skill_gap_loop_all [of P "skill_records ag" c "sid st" subj skid]
  by (cases "update_skill_gap_loop (sid st) subj skid c (skill_records ag)")
     (simp add: update_skill_gap_def)


lemma all_gaps_map_set_skills:
  "all_gaps P rs \<Longrightarrow> list_all (\<lambda>s. P (gap_level s)) sks \<Longrightarrow>
   all_gaps P (map (\<lambda>kv. if fst kv = k then (fst kv, set_assessment_skills sks (snd kv)) else kv) rs)"
  unfolding all_gaps_def
  by (induction rs) (auto simp: set_assessment_skills_def split: stored.splits)

lemma sort_by_gap_desc_all:
  "list_all Q (sort_by_gap_desc sks) = list_all Q sks"
  by (simp add: sort_by_gap_desc_def list_all_iff)

lemma recommend_exercises_records:
  "skill_records (snd (recommend_exercises re now ag st subj count content)) =
     (let (sks, ag1) = identify_skills re now ag st subj content
      in if filter (\<lambda>s. 0.4 < gap_level s) sks = []
         then map (\<lambda>kv. if fst kv = assessment_id_of (sid st) subj now
                         then (fst kv, set_assessment_skills (sort_by_gap_desc sks) (snd kv))
                         else kv) (skill_records ag1)
         else skill_records ag1)"
proof -
  obtain sks ag1 where i: "identify_skills re now ag st subj content = (sks, ag1)"
    by (cases "identify_skills re now ag st subj content")
  define ag2 where "ag2 = (if filter (\<lambda>s. 0.4 < gap_level s) sks = []
                 then ag1\<lparr>skill_records :=
                        map (\<lambda>kv. if fst kv = assessment_id_of (sid st) subj now
                                   then (fst kv, set_assessment_skills (sort_by_gap_desc sks) (snd kv))
                                   else kv)
                            (skill_records ag1)\<rparr>
                 else ag1)"
  obtain lh ag3 where g: "get_learning_history ag2 st subj = (lh, ag3)"
    by (cases "get_learning_history ag2 st subj")
  have r3: "skill_records ag3 = skill_records ag2"
    using get_learning_history_records [of ag2 st subj] g by simp
  have "snd (recommend_exercises re now ag st subj count content) = ag3"
    using i g unfolding recommend_exercises_def ag2_def by (simp add: Let_def)
  then show ?thesis using r3 i by (simp add: ag2_def)
qed

lemma recommend_exercises_all_gaps:
  assumes "\<And>g. valid_gap g \<Longrightarrow> P g" "\<And>g. P g \<Longrightarrow> P (min g 0.2)" "all_gaps P (skill_records ag)"
  shows "all_gaps P (skill_records (snd (recommend_exercises re now ag st subj count content)))"
proof -
  obtain sks ag1 where i: "identify_skills re now ag st subj content = (sks, ag1)"
    by (cases "identify_skills re now ag st subj content")
  have a: "all_gaps P (skill_records ag1)"
    using identify_skills_all_gaps [of P ag re now st subj content, OF assms] i by simp
  have b: "list_all (\<lambda>s. P (gap_level s)) sks"
    using identify_skills_result_all [of P re now ag st subj content, OF assms(1) assms(2)] i by simp
  then have "list_all (\<lambda>s. P (gap_level s)) (sort_by_gap_desc sks)"
    by (simp add: sort_by_gap_desc_all)
  from all_gaps_map_set_skills [OF a this] a show ?thesis
    using i by (simp add: recommend_exercises_records)
qed

lemma track_progress_records:
  "skill_records (fst (snd (track_progress now ag st exid c fb))) = skill_records ag
   \<or> (\<exists>ag' st' subj skid. skill_records ag' = skill_records ag \<and>
         skill_records (fst (snd (track_progress now ag st exid c fb))) =
           skill_records (snd (update_skill_gap ag' st' subj skid c)))"
proof (cases "find_exercise (sid st) exid (skill_records ag)")
  case (Inl e)
  then show ?thesis by (simp add: track_progress_def)
next
  case (Inr r)
  show ?thesis
  proof (cases r)
    case None
    then show ?thesis using Inr by (simp add: track_progress_def)
  next
    case (Some x)
    obtain sk subj where x: "x = (sk, subj)" by (cases x)
    show ?thesis
    proof (cases "progress_records ag")
      case None
      then show ?thesis using Inr Some x by (simp add: track_progress_def)
    next
      case (Some prs)
      define pid where "pid = ''progress_'' @ exid @ ''_'' @ now"
      define rec where "rec = \<lparr>pr_id = pid, pr_student_id = sid st, pr_exercise_id = exid,
                           pr_skill_id = skill_id sk, pr_skill_name = name sk, pr_subject = subj,
                           pr_timestamp = now, pr_completion_status = c, pr_feedback = fb\<rparr>"
      define ag1 where "ag1 = ag\<lparr>progress_records := Some (dict_set pid rec prs)\<rparr>"
      define st1 where "st1 = st\<lparr>progress := dict_set subj (min (dict_get (progress st) subj 0.0 + c * 0.05) 1.0) (progress st)\<rparr>"
      define ag2 where "ag2 = update_learning_history now ag1 st1 subj (skill_id sk) c fb"
      obtain e ag3 where u: "update_skill_gap ag2 st1 subj (skill_id sk) c = (e, ag3)"
        by (cases "update_skill_gap ag2 st1 subj (skill_id sk) c")
      have r2: "skill_records ag2 = skill_records ag"
        by (simp add: ag2_def ag1_def update_learning_history_records)
      have "fst (snd (track_progress now ag st exid c fb)) = ag3"
        using Inr \<open>r = Some x\<close> x Some u
        unfolding track_progress_def ag2_def ag1_def st1_def rec_def pid_def
        by (cases e) (simp_all add: Let_def)
      then show ?thesis using r2 u by (metis snd_conv)
    qed
  qed
qed

lemma track_progress_all_gaps:
  assumes "all_gaps P (skill_records ag)" "\<And>g. P g \<Longrightarrow> P (adjust_gap g c)"
  shows "all_gaps P (skill_records (fst (snd (track_progress now ag st exid c fb))))"
  using track_progress_records [of now ag st exid c fb] assms update_skill_gap_all [of P _ c]
  by metis

lemma track_skill_progress_records:
  "\<exists>ag' subj rid rec. skill_records ag' = dict_set rid (SkillProgress rec) (skill_records ag) \<and>
     (skill_records (snd (track_skill_progress now ag st skid results)) = skill_records ag'
      \<or> skill_records (snd (track_skill_progress now ag st skid results)) =
           skill_records (snd (update_skill_gap ag' st subj skid
                                 (min 1.0 ((if results = [] then 0 else score_sum results / of_nat (length results)) / 100)))))"
proof -
  define scores where "scores = map (\<lambda>r. case score r of None \<Rightarrow> 0 | Some x \<Rightarrow> x) results"
  define avg where "avg = (if scores = [] then 0 else sum_list scores / of_nat (length scores))"
  define pl where "pl = min 1.0 (avg / 100)"
  define rec where "rec = \<lparr>sp_student_id = sid st, sp_skill_id = skid, sp_timestamp = now,
                 exercise_count = length results, average_score = avg,
                 progress_level = pl, completed_exercises = map result_id results\<rparr>"
  define rid where "rid = ''skill_progress_'' @ sid st @ ''_'' @ skid @ ''_'' @ now"
  define ag1 where "ag1 = ag\<lparr>skill_records := dict_set rid (SkillProgress rec) (skill_records ag)\<rparr>"
  have pl_eq: "pl = min 1.0 ((if results = [] then 0 else score_sum results / of_nat (length results)) / 100)"
    by (simp add: pl_def avg_def scores_def score_sum_def)
  have r1: "skill_records ag1 = dict_set rid (SkillProgress rec) (skill_records ag)" by (simp add: ag1_def)
  have unf: "track_skill_progress now ag st skid results =
      (case find_subject (sid st) skid (skill_records ag1) of
            Inl e \<Rightarrow> (Inl e, ag1)
          | Inr None \<Rightarrow> (Inr rec, ag1)
          | Inr (Some subj) \<Rightarrow>
              (let ag2 = update_learning_history now ag1 st subj skid pl (Some ''Completed exercises'');
                   (e, ag3) = update_skill_gap ag2 st subj skid pl
               in (case e of Some err \<Rightarrow> (Inl err, ag3) | None \<Rightarrow> (Inr rec, ag3))))"
    unfolding track_skill_progress_def Let_def ag1_def rid_def rec_def pl_def avg_def scores_def ..
  show ?thesis
  proof (cases "find_subject (sid st) skid (skill_records ag1)")
    case (Inl e)
    then have "skill_records (snd (track_skill_progress now ag st skid results)) = skill_records ag1"
      by (simp add: unf)
    then show ?thesis using r1 by blast
  next
    case (Inr r)
    show ?thesis
    proof (cases r)
      case None
      then have "skill_records (snd (track_skill_progress now ag st skid results)) = skill_records ag1"
        using Inr by (simp add: unf)
      then show ?thesis using r1 by blast
    next
      case (Some subj)
      let ?ag2 = "update_learning_history now ag1 st subj skid pl (Some ''Completed exercises'')"
      obtain e ag3 where u: "update_skill_gap ?ag2 st subj skid pl = (e, ag3)"
        by (cases "update_skill_gap ?ag2 st subj skid pl")
      have r2: "skill_records ?ag2 = dict_set rid (SkillProgress rec) (skill_records ag)"
        using r1 by (simp add: update_learning_history_records)
      have "snd (track_skill_progress now ag st skid results) = ag3"
        using Inr Some u by (cases e) (simp_all add: unf Let_def)
      then have "skill_records (snd (track_skill_progress now ag st skid results)) =
           skill_records (snd (update_skill_gap ?ag2 st subj skid pl))" using u by simp
      then show ?thesis using r2 unfolding pl_eq by blast
    qed
  qed
qed

lemma track_skill_progress_all_gaps:
  assumes "all_gaps P (skill_records ag)"
    "\<And>g. P g \<Longrightarrow> P (adjust_gap g (min 1.0 ((if results = [] then 0 else score_sum results / of_nat (length results)) / 100)))"
  shows "all_gaps P (skill_records (snd (track_skill_progress now ag st skid results)))"
proof -
  let ?c = "min 1.0 ((if results = [] then 0 else score_sum results / of_nat (length results)) / 100)"
  from track_skill_progress_records [of ag now st skid results]
  obtain ag' subj rid rec where
    a: "skill_records ag' = dict_set rid (SkillProgress rec) (skill_records ag)" and
    b: "skill_records (snd (track_skill_progress now ag st skid results)) = skill_records ag'
      \<or> skill_records (snd (track_skill_progress now ag st skid results)) =
           skill_records (snd (update_skill_gap ag' st subj skid ?c))"
    by blast
  have g: "all_gaps P (skill_records ag')"
    using all_gaps_dict_set [OF assms(1), of "SkillProgress rec" rid] a by simp
  from update_skill_gap_all [OF g assms(2)] g b show ?thesis by metis
qed





lemma valid_gap_min: "valid_gap g \<Longrightarrow> valid_gap (min g 0.2)"
  by (simp add: valid_gap_def min_def two_decimals_def)

text \<open>
  Whatever the completions are, every operation keeps the stored gaps multiples of 0.01
  that are not negative; this is the range of gaps that monotonicity of the adjustment
  speaks about.
\<close>

lemma valid_gap_stored: "valid_gap g \<Longrightarrow> stored_gap g"
  by (simp add: valid_gap_def stored_gap_def)

lemma stored_gap_min: "stored_gap g \<Longrightarrow> stored_gap (min g 0.2)"
  by (simp add: stored_gap_def min_def two_decimals_def)

lemma stored_gaps_invariant:
  "all_gaps stored_gap (skill_records ag) \<Longrightarrow>
     all_gaps stored_gap (skill_records (init tax))
   \<and> all_gaps stored_gap (skill_records (snd (identify_skills re now ag st subj content)))
   \<and> all_gaps stored_gap (skill_records (snd (recommend_exercises re now ag st subj count content)))
   \<and> all_gaps stored_gap (skill_records (snd (update_skill_gap ag st subj skid c)))
   \<and> all_gaps stored_gap (skill_records (fst (snd (track_progress now ag st exid c fb))))
   \<and> all_gaps stored_gap (skill_records (snd (track_skill_progress now ag st skid results)))"
proof -
  assume inv: "all_gaps stored_gap (skill_records ag)"
  have 1: "all_gaps stored_gap (skill_records (init tax))"
    by (simp add: init_def all_gaps_def)
  have 3: "all_gaps stored_gap (skill_records (snd (identify_skills re now ag st subj content)))"
    by (rule identify_skills_all_gaps) (erule valid_gap_stored, erule stored_gap_min, rule inv)
  have 4: "all_gaps stored_gap (skill_records (snd (recommend_exercises re now ag st subj count content)))"
    by (rule recommend_exercises_all_gaps) (erule valid_gap_stored, erule stored_gap_min, rule inv)
  have 5: "all_gaps stored_gap (skill_records (snd (update_skill_gap ag st subj skid c)))"
    using update_skill_gap_all [OF inv, of c st subj skid] adjust_gap_stored by blast
  have 6: "all_gaps stored_gap (skill_records (fst (snd (track_progress now ag st exid c fb))))"
    using track_progress_all_gaps [OF inv, of c now st exid fb] adjust_gap_stored by blast
  have 7: "all_gaps stored_gap (skill_records (snd (track_skill_progress now ag st skid results)))"
    using track_skill_progress_all_gaps [OF inv, of results now st skid] adjust_gap_stored by blast
  from 1 3 4 5 6 7 show ?thesis by blast
qed





subsection \<open>Fields of the identified skills\<close>

lemma lower_existing_gap_shape:
  "lower_existing_gap nm sks = Some sks' \<Longrightarrow> map skill_shape sks' = map skill_shape sks"
  by (induction sks arbitrary: sks') (auto simp: skill_shape_def split: if_splits)

lemma analyse_skill_shape:
  "\<exists>ext. map skill_shape (analyse_skill re content subj tr cat item sks) = map skill_shape sks @ ext
         \<and> list_all (\<lambda>t. fst (snd (snd t)) \<noteq> None \<and> snd (snd (snd t)) \<noteq> None) ext"
proof (cases "skill_matches re content (snd item)")
  case False
  then show ?thesis by (simp add: analyse_skill_def)
next
  case True
  show ?thesis
  proof (cases "lower_existing_gap (fst item) sks")
    case None
    then show ?thesis using True by (simp add: analyse_skill_def new_skill_def skill_shape_def)
  next
    case (Some sks')
    then show ?thesis using True lower_existing_gap_shape [OF Some] by (simp add: analyse_skill_def)
  qed
qed

lemma fold_analyse_skill_shape:
  "\<exists>ext. map skill_shape (fold (analyse_skill re content subj tr cat) items sks) = map skill_shape sks @ ext
         \<and> list_all (\<lambda>t. fst (snd (snd t)) \<noteq> None \<and> snd (snd (snd t)) \<noteq> None) ext"
proof (induction items arbitrary: sks)
  case Nil
  then show ?case by simp
next
  case (Cons item items)
  from analyse_skill_shape [of re content subj tr cat item sks] obtain e1 where
    e1: "map skill_shape (analyse_skill re content subj tr cat item sks) = map skill_shape sks @ e1"
        "list_all (\<lambda>t. fst (snd (snd t)) \<noteq> None \<and> snd (snd (snd t)) \<noteq> None) e1" by blast
  from Cons [of "analyse_skill re content subj tr cat item sks"] obtain e2 where
    e2: "map skill_shape (fold (analyse_skill re content subj tr cat) items (analyse_skill re content subj tr cat item sks))
           = map skill_shape (analyse_skill re content subj tr cat item sks) @ e2"
        "list_all (\<lambda>t. fst (snd (snd t)) \<noteq> None \<and> snd (snd (snd t)) \<noteq> None) e2" by blast
  show ?case using e1 e2 by (intro exI [of _ "e1 @ e2"]) simp
qed

lemma analyse_content_shape:
  "\<exists>ext. map skill_shape (analyse_content re content subj tr tax sks) = map skill_shape sks @ ext
         \<and> list_all (\<lambda>t. fst (snd (snd t)) \<noteq> None \<and> snd (snd (snd t)) \<noteq> None) ext"
  unfolding analyse_content_def
proof (induction tax arbitrary: sks)
  case Nil
  then show ?case by simp
next
  case (Cons ci tax)
  let ?s1 = "fold (analyse_skill re content subj tr (fst ci)) (snd ci) sks"
  from fold_analyse_skill_shape [of re content subj tr "fst ci" "snd ci" sks] obtain e1 where
    e1: "map skill_shape ?s1 = map skill_shape sks @ e1"
        "list_all (\<lambda>t. fst (snd (snd t)) \<noteq> None \<and> snd (snd (snd t)) \<noteq> None) e1" by blast
  from Cons [of ?s1] obtain e2 where
    e2: "map skill_shape (fold (\<lambda>cat_items. fold (analyse_skill re content subj tr (fst cat_items)) (snd cat_items)) tax ?s1)
           = map skill_shape ?s1 @ e2"
        "list_all (\<lambda>t. fst (snd (snd t)) \<noteq> None \<and> snd (snd (snd t)) \<noteq> None) e2" by blast
  show ?case using e1 e2 by (intro exI [of _ "e1 @ e2"]) simp
qed

lemma identify_skills_shape:
  "\<exists>ext. map skill_shape (fst (identify_skills re now ag st subj content)) = map skill_shape (base_skills_of st subj) @ ext
         \<and> list_all (\<lambda>t. fst (snd (snd t)) \<noteq> None \<and> snd (snd (snd t)) \<noteq> None) ext"
proof -
  have triv: "\<exists>ext. map skill_shape sks = map skill_shape sks @ ext
         \<and> list_all (\<lambda>t. fst (snd (snd t)) \<noteq> None \<and> snd (snd (snd t)) \<noteq> None) ext" for sks
    by (intro exI [of _ "[]"]) simp
  show ?thesis
    using triv analyse_content_shape
    by (simp add: identify_skills_def Let_def base_skills_of_def split: option.splits)
qed

lemma base_skills_lack: "list_all lacks_category_and_level (base_skills_of st subj)"
  using base_skills_valid by (simp add: list_all_iff lacks_category_and_level_def base_skills_of_def)

text \<open>
  Claim C10 says that every skill returned by \<^verbatim>\<open>identify_skills\<close> carries the five
  fields id, name, category, gap_level and level. The dicts of the canned table in
  \<^verbatim>\<open>_map_skills_for_subject\<close> have the keys id, name and gap_level only; for a beginner in
  math and no content the returned skills have neither a category nor a level.
\<close>

theorem identify_skills_base_fields_counterexample:
  "fst (identify_skills no_regex ''1'' (init []) student1 ''math'' None) =
     [\<lparr>skill_id = ''math_basic_arithmetic'', name = ''Basic Arithmetic'', category = None,
       gap_level = 0.2, level = None\<rparr>,
      \<lparr>skill_id = ''math_fractions'', name = ''Fractions'', category = None,
       gap_level = 0.5, level = None\<rparr>,
      \<lparr>skill_id = ''math_decimals'', name = ''Decimals'', category = None,
       gap_level = 0.4, level = None\<rparr>]"
  by (simp add: identify_skills_def init_def student1_def Let_def
      dict_get_def tier_of_def map_skills_for_subject_def skill_map_def base_skill_def)

text \<open>
  Claim C10 as amended. The list returned by \<^verbatim>\<open>identify_skills\<close> begins with the canned
  base skills of the (subject, tier) pair, with their ids and names; these carry id, name and
  gap_level and neither category nor level. Every skill after them, appended by content
  analysis, carries all five fields.
\<close>

theorem identify_skills_fields:
  "length (base_skills_of st subj) \<le> length (fst (identify_skills re now ag st subj content))
   \<and> map skill_id (take (length (base_skills_of st subj)) (fst (identify_skills re now ag st subj content)))
       = map skill_id (base_skills_of st subj)
   \<and> map name (take (length (base_skills_of st subj)) (fst (identify_skills re now ag st subj content)))
       = map name (base_skills_of st subj)
   \<and> list_all lacks_category_and_level
       (take (length (base_skills_of st subj)) (fst (identify_skills re now ag st subj content)))
   \<and> list_all has_category_and_level
       (drop (length (base_skills_of st subj)) (fst (identify_skills re now ag st subj content)))"
proof -
  let ?r = "fst (identify_skills re now ag st subj content)"
  let ?b = "base_skills_of st subj"
  let ?n = "length ?b"
  from identify_skills_shape [of re now ag st subj content] obtain ext where
    e: "map skill_shape ?r = map skill_shape ?b @ ext"
       "list_all (\<lambda>t. fst (snd (snd t)) \<noteq> None \<and> snd (snd (snd t)) \<noteq> None) ext" by blast
  from e(1) have len: "length ?r = ?n + length ext"
    by (metis length_append length_map)
  have tk: "map skill_shape (take ?n ?r) = map skill_shape ?b"
    using e(1) by (simp add: take_map [symmetric])
  have dr: "map skill_shape (drop ?n ?r) = ext"
    using e(1) by (simp add: drop_map [symmetric])
  have ids: "map skill_id xs = map (fst \<circ> skill_shape) xs" for xs
    by (simp add: skill_shape_def)
  have nms: "map name xs = map (fst \<circ> snd \<circ> skill_shape) xs" for xs
    by (simp add: skill_shape_def)
  have 1: "?n \<le> length ?r" using len by simp
  have 2: "map skill_id (take ?n ?r) = map skill_id ?b"
    unfolding ids using tk by (metis map_map)
  have 3: "map name (take ?n ?r) = map name ?b"
    unfolding nms using tk by (metis map_map)
  have lk: "list_all lacks_category_and_level xs =
            list_all (\<lambda>t. fst (snd (snd t)) = None \<and> snd (snd (snd t)) = None) (map skill_shape xs)" for xs
    by (simp add: list_all_iff lacks_category_and_level_def skill_shape_def)
  have hs: "list_all has_category_and_level xs =
            list_all (\<lambda>t. fst (snd (snd t)) \<noteq> None \<and> snd (snd (snd t)) \<noteq> None) (map skill_shape xs)" for xs
    by (simp add: list_all_iff has_category_and_level_def skill_shape_def)
  have 4: "list_all lacks_category_and_level (take ?n ?r)"
    using base_skills_lack [of st subj] unfolding lk tk .
  have 5: "list_all has_category_and_level (drop ?n ?r)"
    unfolding hs dr using e(2) .
  from 1 2 3 4 5 show ?thesis by blast
qed

theorem identify_skills_fields_witness:
  "length (base_skills_of student1 ''math'') = 3
   \<and> map skill_id (take 3 (fst (identify_skills no_regex ''1'' (init []) student1 ''math'' None)))
       = [''math_basic_arithmetic'', ''math_fractions'', ''math_decimals'']
   \<and> list_all lacks_category_and_level
       (take 3 (fst (identify_skills no_regex ''1'' (init []) student1 ''math'' None)))
   \<and> list_all has_category_and_level
       (drop 3 (fst (identify_skills no_regex ''1'' (init []) student1 ''math'' None)))"
proof -
  have b: "base_skills_of student1 ''math'' =
             [base_skill ''math_basic_arithmetic'' ''Basic Arithmetic'' 0.2,
              base_skill ''math_fractions'' ''Fractions'' 0.5,
              base_skill ''math_decimals'' ''Decimals'' 0.4]"
    by (simp add: base_skills_of_def student1_def dict_get_def tier_of_def
        map_skills_for_subject_def skill_map_def)
  have n: "length (base_skills_of student1 ''math'') = 3" by (simp add: b)
  have m: "map skill_id (base_skills_of student1 ''math'')
             = [''math_basic_arithmetic'', ''math_fractions'', ''math_decimals'']"
    by (simp add: b base_skill_def)
  show ?thesis
    using identify_skills_fields [of student1 "''math''" no_regex "''1''" "init []" None]
    unfolding n m by blast
qed

subsection \<open>Exercise recommendation\<close>

lemma generate_exercises_ids:
  "map ex_skill_id (generate_exercises st subj lh sks acc) = map ex_skill_id acc @ map skill_id sks
   \<and> map ex_skill_name (generate_exercises st subj lh sks acc) = map ex_skill_name acc @ map name sks
   \<and> length (generate_exercises st subj lh sks acc) = length acc + length sks"
  by (induction sks arbitrary: acc) (simp_all add: make_exercise_def Let_def)

lemma recommend_exercises_result:
  "\<exists>lh. fst (recommend_exercises re now ag st subj count content) =
     generate_exercises st subj lh
       (target_skills count (fst (identify_skills re now ag st subj content))) []"
proof -
  obtain sks ag1 where i: "identify_skills re now ag st subj content = (sks, ag1)"
    by (cases "identify_skills re now ag st subj content")
  define ag2 where "ag2 = (if filter (\<lambda>s. 0.4 < gap_level s) sks = []
                 then ag1\<lparr>skill_records :=
                        map (\<lambda>kv. if fst kv = assessment_id_of (sid st) subj now
                                   then (fst kv, set_assessment_skills (sort_by_gap_desc sks) (snd kv))
                                   else kv)
                            (skill_records ag1)\<rparr>
                 else ag1)"
  obtain lh ag3 where g: "get_learning_history ag2 st subj = (lh, ag3)"
    by (cases "get_learning_history ag2 st subj")
  have "fst (recommend_exercises re now ag st subj count content) =
          generate_exercises st subj lh (target_skills count sks) []"
    using i g unfolding recommend_exercises_def ag2_def by (simp add: Let_def)
  then show ?thesis using i by auto
qed

lemma target_skills_eq:
  "target_skills count sks = py_slice_to count (sort_by_gap_desc (candidate_skills sks))"
  by (simp add: target_skills_def candidate_skills_def Let_def)

lemma sort_by_gap_desc_sorted:
  "sorted_wrt (\<lambda>a b. gap_level b \<le> gap_level a) (sort_by_gap_desc xs)"
proof -
  have "sorted (map (\<lambda>x. - gap_level x) (sort_key (\<lambda>x. - gap_level x) xs))"
    by (rule sorted_sort_key)
  then show ?thesis
    by (simp add: sort_by_gap_desc_def sorted_wrt_map)
qed

lemma sort_by_gap_desc_stable:
  "filter (\<lambda>s. gap_level s = g) (sort_by_gap_desc xs) = filter (\<lambda>s. gap_level s = g) xs"
  using sort_key_stable [of "\<lambda>x. - gap_level x" "- g" xs]
  by (simp add: sort_by_gap_desc_def)

lemma base_math_advanced:
  "map_skills_for_subject ''math'' ''advanced'' =
     [base_skill ''math_calculus'' ''Calculus'' 0.5,
      base_skill ''math_linear_algebra'' ''Linear Algebra'' 0.7,
      base_skill ''math_probability'' ''Probability Theory'' 0.4]"
  by (simp add: map_skills_for_subject_def dict_get_def skill_map_def)

lemma identify_student2:
  "fst (identify_skills re now ag student2 ''math'' None) =
     [base_skill ''math_calculus'' ''Calculus'' 0.5,
      base_skill ''math_linear_algebra'' ''Linear Algebra'' 0.7,
      base_skill ''math_probability'' ''Probability Theory'' 0.4]"
  by (simp add: identify_skills_def Let_def student2_def dict_get_def tier_of_def base_math_advanced)

lemma candidates_student2:
  "sort_by_gap_desc (candidate_skills
     [base_skill ''math_calculus'' ''Calculus'' 0.5,
      base_skill ''math_linear_algebra'' ''Linear Algebra'' 0.7,
      base_skill ''math_probability'' ''Probability Theory'' 0.4]) =
     [base_skill ''math_linear_algebra'' ''Linear Algebra'' 0.7,
      base_skill ''math_calculus'' ''Calculus'' 0.5]"
  by (simp add: candidate_skills_def sort_by_gap_desc_def base_skill_def)

text \<open>
  Claim C8 says that \<^verbatim>\<open>recommend_exercises\<close> returns at most \<open>count\<close> exercises for
  every count. The skills are cut with \<^verbatim>\<open>skill_gaps[:count]\<close>, and a negative count drops
  that many skills from the end instead: with count -1 an advanced math student, who has two
  skills above 0.4, gets one exercise.
\<close>

theorem recommend_exercises_negative_count_counterexample:
  "map ex_skill_id (fst (recommend_exercises no_regex ''1'' (init []) student2 ''math'' (- 1) None))
     = [''math_linear_algebra'']
   \<and> \<not> int (length (fst (recommend_exercises no_regex ''1'' (init []) student2 ''math'' (- 1) None))) \<le> - 1"
proof -
  from recommend_exercises_result [of no_regex "''1''" "init []" student2 "''math''" "- 1" None]
  obtain lh where r: "fst (recommend_exercises no_regex ''1'' (init []) student2 ''math'' (- 1) None) =
     generate_exercises student2 ''math'' lh
       (target_skills (- 1) (fst (identify_skills no_regex ''1'' (init []) student2 ''math'' None))) []"
    by blast
  have t: "target_skills (- 1) (fst (identify_skills no_regex ''1'' (init []) student2 ''math'' None))
           = [base_skill ''math_linear_algebra'' ''Linear Algebra'' 0.7]"
    unfolding target_skills_eq identify_student2 candidates_student2 by (simp add: py_slice_to_def)
  show ?thesis
    unfolding r t
    using generate_exercises_ids [of student2 "''math''" lh "[base_skill ''math_linear_algebra'' ''Linear Algebra'' 0.7]" "[]"]
    by (simp add: base_skill_def)
qed

text \<open>
  Claim C8 as amended. For every student, subject, optional content and every count that
  is not negative, \<^verbatim>\<open>recommend_exercises\<close> returns at most \<open>count\<close> exercises. They
  are made, one each and in this order, from the first \<open>count\<close> candidate skills sorted by
  descending gap level, where the candidates are the identified skills with a gap above
  0.4, or all identified skills when none is above 0.4. The sort keeps skills of equal gap
  in their prior order.
\<close>

theorem recommend_exercises_count_and_order:
  "0 \<le> count \<Longrightarrow>
     int (length (fst (recommend_exercises re now ag st subj count content))) \<le> count
   \<and> map ex_skill_id (fst (recommend_exercises re now ag st subj count content)) =
       map skill_id (take (nat count)
         (sort_by_gap_desc (candidate_skills (fst (identify_skills re now ag st subj content)))))
   \<and> map ex_skill_name (fst (recommend_exercises re now ag st subj count content)) =
       map name (take (nat count)
         (sort_by_gap_desc (candidate_skills (fst (identify_skills re now ag st subj content)))))
   \<and> sorted_wrt (\<lambda>a b. gap_level b \<le> gap_level a)
       (sort_by_gap_desc (candidate_skills (fst (identify_skills re now ag st subj content))))
   \<and> filter (\<lambda>s. gap_level s = g)
        (sort_by_gap_desc (candidate_skills (fst (identify_skills re now ag st subj content))))
       = filter (\<lambda>s. gap_level s = g) (candidate_skills (fst (identify_skills re now ag st subj content)))"
proof -
  assume c: "0 \<le> count"
  let ?sks = "fst (identify_skills re now ag st subj content)"
  let ?t = "take (nat count) (sort_by_gap_desc (candidate_skills ?sks))"
  from recommend_exercises_result [of re now ag st subj count content] obtain lh where
    r: "fst (recommend_exercises re now ag st subj count content) =
          generate_exercises st subj lh (target_skills count ?sks) []" by blast
  have t: "target_skills count ?sks = ?t" using c by (simp add: target_skills_eq py_slice_to_def)
  have 1: "int (length (fst (recommend_exercises re now ag st subj count content))) \<le> count"
    using c generate_exercises_ids [of st subj lh ?t "[]"] unfolding r t by simp
  have 2: "map ex_skill_id (fst (recommend_exercises re now ag st subj count content)) = map skill_id ?t"
    using generate_exercises_ids [of st subj lh ?t "[]"] unfolding r t by simp
  have 3: "map ex_skill_name (fst (recommend_exercises re now ag st subj count content)) = map name ?t"
    using generate_exercises_ids [of st subj lh ?t "[]"] unfolding r t by simp
  from 1 2 3 sort_by_gap_desc_sorted sort_by_gap_desc_stable show ?thesis by blast
qed


theorem recommend_exercises_count_and_order_witness:
  "(0::int) \<le> 3
   \<and> int (length (fst (recommend_exercises no_regex ''1'' (init []) student2 ''math'' 3 None))) \<le> 3
   \<and> map ex_skill_id (fst (recommend_exercises no_regex ''1'' (init []) student2 ''math'' 3 None))
       = [''math_linear_algebra'', ''math_calculus'']"
proof -
  have c: "(0::int) \<le> 3" by simp
  show ?thesis
    using recommend_exercises_count_and_order [OF c, of no_regex "''1''" "init []" student2 "''math''" None "0.5"]
    unfolding identify_student2 candidates_student2 by (simp add: base_skill_def)
qed

subsection \<open>Content analysis\<close>





























end
